theory Spec2Isabelle
  imports Complex_Main
begin

section \<open>The flashbots bundle example (examples/simple.py)\<close>

text \<open>
  The script builds a bundle of two EIP-1559 transfers, then submits it to the relay in a
  \<^verbatim>\<open>while True\<close> loop until a receipt is found. Everything the script does is a call
  into a library (web3, flashbots, eth_account, requests) or a \<^verbatim>\<open>print\<close>. The model
  keeps the script's control flow and records every call and every print, in order, as an
  event; what the outside world answers is read from a \<open>world\<close> record, and the pure
  library functions the script composes are the fields of a \<open>lib\<close> record.
\<close>

subsection \<open>Data\<close>

type_synonym bytes = string

text \<open>\<^verbatim>\<open>LocalAccount\<close>: the two attributes the script reads.\<close>

record LocalAccount =
  address :: string
  privateKey :: bytes

text \<open>\<^verbatim>\<open>TxParams\<close> with the keys the script sets (\<open>to\<close>, \<open>value\<close> and \<open>type\<close> are
  prefixed: they are reserved words here).\<close>

record TxParams =
  tx_to :: string
  tx_value :: int
  gas :: int
  maxFeePerGas :: int
  maxPriorityFeePerGas :: int
  nonce :: int
  chainId :: int
  tx_type :: int

text \<open>A bundle entry is \<^verbatim>\<open>{"signed_transaction": raw}\<close> or
  \<^verbatim>\<open>{"signer": account, "transaction": tx}\<close>.\<close>

datatype bundle_entry =
    Signed_transaction bytes
  | Signer_transaction "LocalAccount" "TxParams"

type_synonym Bundle = "bundle_entry list"

datatype json =
    JString string
  | JInt int
  | JList "json list"
  | JObject "(string \<times> json) list"

datatype exn = TransactionNotFound | IndexError | Other_error string

record receipt =
  blockNumber :: int

text \<open>The object \<^verbatim>\<open>send_bundle\<close> returns: its bundle hash, and what its \<^verbatim>\<open>wait()\<close>
  and \<^verbatim>\<open>receipts()\<close> methods will answer.\<close>

record send_result =
  bundle_hash :: bytes
  wait :: "exn + unit"
  receipts :: "exn + receipt list"

datatype unit_name = ether | gwei

subsection \<open>Library functions and the outside world\<close>

text \<open>The pure functions of eth_account, web3 and json that the script composes.\<close>

record lib =
  keccak_text :: "string \<Rightarrow> bytes"
  bytes_hex :: "bytes \<Rightarrow> string"
  encode_defunct :: "string \<Rightarrow> bytes"
  sign_message :: "bytes \<Rightarrow> string \<Rightarrow> bytes"
  json_dumps :: "json \<Rightarrow> string"
  toHex_int :: "int \<Rightarrow> string"
  toHex_bytes :: "bytes \<Rightarrow> string"
  sign_transaction :: "LocalAccount \<Rightarrow> TxParams \<Rightarrow> bytes"
  from_key :: "string \<Rightarrow> LocalAccount"

text \<open>What the chain node, the relay, the random sources and the HTTP endpoint answer.
  A call that is made repeatedly takes the number of the call (balance reads) or of the
  loop iteration as its first argument, so that answers may change over time. A call that
  raises answers \<open>Inl\<close>.\<close>

record world =
  token_hex :: string
  get_balance :: "nat \<Rightarrow> string \<Rightarrow> exn + int"
  get_transaction_count :: "nat \<Rightarrow> string \<Rightarrow> exn + int"
  block_number :: "nat \<Rightarrow> exn + int"
  uuid4 :: "nat \<Rightarrow> string"
  send_bundle :: "nat \<Rightarrow> Bundle \<Rightarrow> int \<Rightarrow> (string \<times> string) list \<Rightarrow> exn + send_result"
  get_bundle_stats :: "nat \<Rightarrow> string \<Rightarrow> int \<Rightarrow> exn + string"
  get_bundle_stats_v2 :: "nat \<Rightarrow> string \<Rightarrow> int \<Rightarrow> exn + string"
  requests_post :: "string \<Rightarrow> string \<Rightarrow> (string \<times> string) list \<Rightarrow> exn + json"

text \<open>The module-level settings: the network flag and the two accounts (their key
  literals are blank in the source).\<close>

record config =
  use_sepolia :: bool
  sender :: LocalAccount
  signer :: LocalAccount

subsection \<open>Events and the result of a run\<close>

datatype event =
    Call_flashbot LocalAccount "string option"
  | Call_get_balance string
  | Call_get_transaction_count string
  | Call_block_number
  | Call_send_bundle Bundle int "(string \<times> string) list"
  | Call_get_bundle_stats string int
  | Call_get_bundle_stats_v2 string int
  | Call_wait
  | Call_receipts
  | Call_requests_post string string "(string \<times> string) list"
  | Sleep nat
  | Print_sender_address string
  | Print_receiver_address string
  | Print_sender_balance rat
  | Print_receiver_balance rat
  | Print_nonce int
  | Print_bundle Bundle
  | Print_simulating int
  | Print_sending int
  | Print_replacementUuid string
  | Print_bundleHash string
  | Print_stats_v1 string
  | Print_stats_v2 string
  | Print_mined int
  | Print_not_found int

text \<open>A computation yields the events it produced and either the exception that ended
  it or its value.\<close>

type_synonym 'a res = "event list \<times> (exn + 'a)"

definition ret :: "'a \<Rightarrow> 'a res" where
  "ret x = ([], Inr x)"

definition emit :: "event \<Rightarrow> unit res" where
  "emit e = ([e], Inr ())"

definition call :: "event \<Rightarrow> exn + 'a \<Rightarrow> 'a res" where
  "call e r = ([e], r)"

definition bind :: "'a res \<Rightarrow> ('a \<Rightarrow> 'b res) \<Rightarrow> 'b res" where
  "bind m f =
     (case m of
        (t, Inl e) \<Rightarrow> (t, Inl e)
      | (t, Inr x) \<Rightarrow> (case f x of (t', r) \<Rightarrow> (t @ t', r)))"

subsection \<open>Constants and helpers of the module\<close>

definition USE_SEPOLIA :: bool where
  "USE_SEPOLIA = True"

definition CHAIN_ID :: "bool \<Rightarrow> int" where
  "CHAIN_ID flag = (if flag then 5 else 1)"

fun unit_value :: "unit_name \<Rightarrow> int" where
  "unit_value ether = 10 ^ 18"
| "unit_value gwei = 10 ^ 9"

definition toWei :: "rat \<Rightarrow> unit_name \<Rightarrow> int" where
  "toWei x u = \<lfloor>x * of_int (unit_value u)\<rfloor>"

definition fromWei :: "int \<Rightarrow> unit_name \<Rightarrow> rat" where
  "fromWei x u = of_int x / of_int (unit_value u)"

definition random_account :: "lib \<Rightarrow> world \<Rightarrow> LocalAccount" where
  "random_account L w = from_key L (''0x'' @ token_hex w)"

subsection \<open>simulate_bundle\<close>

definition simulate_url :: string where
  "simulate_url = ''https://relay-sepolia.flashbots.net''"

definition simulate_data :: "lib \<Rightarrow> json \<Rightarrow> int \<Rightarrow> json" where
  "simulate_data L bundle target_blk_num =
     JObject
       [(''jsonrpc'', JString ''2.0''),
        (''id'', JInt 0),
        (''method'', JString ''eth_callBundle''),
        (''params'',
           JList [JObject [(''txs'', bundle),
                           (''blockNumber'', JString (toHex_int L target_blk_num)),
                           (''stateBlockNumber'', JString ''latest'')]])]"

text \<open>Lines 64 and 65: the value of the \<^verbatim>\<open>X-Flashbots-Signature\<close> header for a body.\<close>

definition flashbots_signature :: "lib \<Rightarrow> LocalAccount \<Rightarrow> string \<Rightarrow> string" where
  "flashbots_signature L acct body =
     (let message = encode_defunct L (bytes_hex L (keccak_text L body))
      in address acct @ '':'' @
         bytes_hex L (sign_message L message (bytes_hex L (privateKey acct))))"

definition simulate_headers :: "lib \<Rightarrow> LocalAccount \<Rightarrow> string \<Rightarrow> (string \<times> string) list" where
  "simulate_headers L acct body =
     [(''Content-Type'', ''application/json''),
      (''X-Flashbots-Signature'', flashbots_signature L acct body)]"

definition simulate_bundle :: "lib \<Rightarrow> world \<Rightarrow> config \<Rightarrow> json \<Rightarrow> int \<Rightarrow> json res" where
  "simulate_bundle L w c bundle target_blk_num =
     (let body = json_dumps L (simulate_data L bundle target_blk_num);
          headers = simulate_headers L (signer c) body
      in call (Call_requests_post simulate_url body headers)
              (requests_post w simulate_url body headers))"

subsection \<open>main: building the bundle\<close>

definition relay_url :: "bool \<Rightarrow> string option" where
  "relay_url flag = (if flag then Some ''https://relay-goerli.flashbots.net'' else None)"

definition tx1 :: "config \<Rightarrow> string \<Rightarrow> int \<Rightarrow> TxParams" where
  "tx1 c receiverAddress n =
     \<lparr>tx_to = receiverAddress,
      tx_value = toWei (1 / 1000) ether,
      gas = 21000,
      maxFeePerGas = toWei 200 gwei,
      maxPriorityFeePerGas = toWei 50 gwei,
      nonce = n,
      chainId = CHAIN_ID (use_sepolia c),
      tx_type = 2\<rparr>"

definition tx2 :: "config \<Rightarrow> string \<Rightarrow> int \<Rightarrow> TxParams" where
  "tx2 c receiverAddress n =
     \<lparr>tx_to = receiverAddress,
      tx_value = toWei (1 / 1000) ether,
      gas = 21000,
      maxFeePerGas = toWei 200 gwei,
      maxPriorityFeePerGas = toWei 50 gwei,
      nonce = n + 1,
      chainId = CHAIN_ID (use_sepolia c),
      tx_type = 2\<rparr>"

definition build_bundle :: "lib \<Rightarrow> config \<Rightarrow> string \<Rightarrow> int \<Rightarrow> Bundle" where
  "build_bundle L c receiverAddress n =
     [Signed_transaction (sign_transaction L (sender c) (tx1 c receiverAddress n)),
      Signer_transaction (sender c) (tx2 c receiverAddress n)]"

text \<open>Lines 78 to 138: everything before the loop. The value is the bundle.\<close>

definition prelude :: "lib \<Rightarrow> world \<Rightarrow> config \<Rightarrow> (string \<times> Bundle) res" where
  "prelude L w c =
     (let receiverAddress = address (random_account L w) in
      bind (emit (Call_flashbot (signer c) (relay_url (use_sepolia c)))) (\<lambda>_.
      bind (emit (Print_sender_address (address (sender c)))) (\<lambda>_.
      bind (emit (Print_receiver_address receiverAddress)) (\<lambda>_.
      bind (call (Call_get_balance (address (sender c)))
                 (get_balance w 0 (address (sender c)))) (\<lambda>b0.
      bind (emit (Print_sender_balance (fromWei b0 ether))) (\<lambda>_.
      bind (call (Call_get_balance receiverAddress)
                 (get_balance w 1 receiverAddress)) (\<lambda>b1.
      bind (emit (Print_receiver_balance (fromWei b1 ether))) (\<lambda>_.
      bind (call (Call_get_transaction_count (address (sender c)))
                 (get_transaction_count w 0 (address (sender c)))) (\<lambda>n.
      bind (emit (Print_nonce n)) (\<lambda>_.
      bind (emit (Print_bundle (build_bundle L c receiverAddress n))) (\<lambda>_.
      ret (receiverAddress, build_bundle L c receiverAddress n))))))))))))"

subsection \<open>main: the submission loop\<close>

datatype outcome = Included | Retrying

text \<open>Lines 182 to 191: \<^verbatim>\<open>try\<close> covers \<^verbatim>\<open>receipts()\<close> and the print of
  \<^verbatim>\<open>receipts[0].blockNumber\<close>; only \<^verbatim>\<open>TransactionNotFound\<close> is caught.\<close>

definition check_receipts :: "send_result \<Rightarrow> int \<Rightarrow> outcome res" where
  "check_receipts sr block =
     (case receipts sr of
        Inl TransactionNotFound \<Rightarrow>
          ([Call_receipts, Print_not_found (block + 1)], Inr Retrying)
      | Inl e \<Rightarrow> ([Call_receipts], Inl e)
      | Inr [] \<Rightarrow> ([Call_receipts], Inl IndexError)
      | Inr (r # rs) \<Rightarrow> ([Call_receipts, Print_mined (blockNumber r)], Inr Included))"

text \<open>Lines 143 to 191: one iteration of the loop, the \<open>i\<close>-th.\<close>

definition attempt :: "lib \<Rightarrow> world \<Rightarrow> Bundle \<Rightarrow> nat \<Rightarrow> outcome res" where
  "attempt L w b i =
     bind (call Call_block_number (block_number w i)) (\<lambda>block.
     bind (emit (Print_simulating block)) (\<lambda>_.
     bind (emit (Print_sending (block + 1))) (\<lambda>_.
     (let replacement_uuid = uuid4 w i in
     bind (emit (Print_replacementUuid replacement_uuid)) (\<lambda>_.
     bind (call (Call_send_bundle b (block + 10) [(''replacementUuid'', replacement_uuid)])
                (send_bundle w i b (block + 10) [(''replacementUuid'', replacement_uuid)]))
          (\<lambda>sr.
     bind (emit (Print_bundleHash (toHex_bytes L (bundle_hash sr)))) (\<lambda>_.
     bind (emit (Sleep 12)) (\<lambda>_.
     bind (call (Call_get_bundle_stats (toHex_bytes L (bundle_hash sr)) block)
                (get_bundle_stats w i (toHex_bytes L (bundle_hash sr)) block)) (\<lambda>stats_v1.
     bind (emit (Print_stats_v1 stats_v1)) (\<lambda>_.
     bind (call (Call_get_bundle_stats_v2 (toHex_bytes L (bundle_hash sr)) block)
                (get_bundle_stats_v2 w i (toHex_bytes L (bundle_hash sr)) block)) (\<lambda>stats_v2.
     bind (emit (Print_stats_v2 stats_v2)) (\<lambda>_.
     bind (call Call_wait (wait sr)) (\<lambda>_.
     check_receipts sr block)))))))))))))"

text \<open>The \<^verbatim>\<open>while True\<close> loop, with fuel: \<open>None\<close> means that the loop is still running
  when the fuel is used up; \<open>Some (Inr ())\<close> is the \<^verbatim>\<open>break\<close>, \<open>Some (Inl e)\<close> an exception
  that leaves the loop.\<close>

fun submit_loop :: "lib \<Rightarrow> world \<Rightarrow> Bundle \<Rightarrow> nat \<Rightarrow> nat \<Rightarrow> event list \<times> (exn + unit) option"
  where
  "submit_loop L w b 0 i = ([], None)"
| "submit_loop L w b (Suc n) i =
     (case attempt L w b i of
        (t, Inl e) \<Rightarrow> (t, Some (Inl e))
      | (t, Inr Included) \<Rightarrow> (t, Some (Inr ()))
      | (t, Inr Retrying) \<Rightarrow>
          (case submit_loop L w b n (Suc i) of (t', r) \<Rightarrow> (t @ t', r)))"

text \<open>Lines 194 to 199: the two balance prints after the loop.\<close>

definition epilogue :: "world \<Rightarrow> config \<Rightarrow> string \<Rightarrow> unit res" where
  "epilogue w c receiverAddress =
     bind (call (Call_get_balance (address (sender c)))
                (get_balance w 2 (address (sender c)))) (\<lambda>b2.
     bind (emit (Print_sender_balance (fromWei b2 ether))) (\<lambda>_.
     bind (call (Call_get_balance receiverAddress)
                (get_balance w 3 receiverAddress)) (\<lambda>b3.
     emit (Print_receiver_balance (fromWei b3 ether)))))"

definition main :: "lib \<Rightarrow> world \<Rightarrow> config \<Rightarrow> nat \<Rightarrow> event list \<times> (exn + unit) option" where
  "main L w c fuel =
     (case prelude L w c of
        (t, Inl e) \<Rightarrow> (t, Some (Inl e))
      | (t, Inr (receiverAddress, b)) \<Rightarrow>
          (case submit_loop L w b fuel 0 of
             (t', None) \<Rightarrow> (t @ t', None)
           | (t', Some (Inl e)) \<Rightarrow> (t @ t', Some (Inl e))
           | (t', Some (Inr _)) \<Rightarrow>
               (case epilogue w c receiverAddress of
                  (t'', r) \<Rightarrow> (t @ t' @ t'', Some r))))"

subsection \<open>Observations on a trace\<close>

text \<open>The \<^verbatim>\<open>send_bundle\<close> calls of a trace, in order: bundle, target block, options.\<close>

primrec send_calls :: "event list \<Rightarrow> (Bundle \<times> int \<times> (string \<times> string) list) list" where
  "send_calls [] = []"
| "send_calls (e # t) =
     (case e of
        Call_send_bundle b tgt opts \<Rightarrow> (b, tgt, opts) # send_calls t
      | _ \<Rightarrow> send_calls t)"

definition sent_bundles :: "event list \<Rightarrow> Bundle list" where
  "sent_bundles t = map fst (send_calls t)"

definition sent_targets :: "event list \<Rightarrow> int list" where
  "sent_targets t = map (\<lambda>x. fst (snd x)) (send_calls t)"

text \<open>The \<^verbatim>\<open>replacementUuid\<close> option of each \<^verbatim>\<open>send_bundle\<close> call.\<close>

definition replacement_uuids :: "event list \<Rightarrow> string option list" where
  "replacement_uuids t = map (\<lambda>x. map_of (snd (snd x)) ''replacementUuid'') (send_calls t)"

text \<open>One id for the whole series: at most one distinct value among the calls.\<close>

definition uuids_stable :: "event list \<Rightarrow> bool" where
  "uuids_stable t = (length (remdups (replacement_uuids t)) \<le> 1)"

text \<open>The block named by each "Sending bundle targeting block" line.\<close>

primrec reported_targets :: "event list \<Rightarrow> int list" where
  "reported_targets [] = []"
| "reported_targets (e # t) =
     (case e of Print_sending k \<Rightarrow> k # reported_targets t | _ \<Rightarrow> reported_targets t)"

definition is_block_read :: "event \<Rightarrow> bool" where
  "is_block_read e = (case e of Call_block_number \<Rightarrow> True | _ \<Rightarrow> False)"

definition is_nonce_read :: "event \<Rightarrow> bool" where
  "is_nonce_read e = (case e of Call_get_transaction_count a \<Rightarrow> True | _ \<Rightarrow> False)"

definition is_simulation :: "event \<Rightarrow> bool" where
  "is_simulation e = (case e of Call_requests_post u b h \<Rightarrow> True | _ \<Rightarrow> False)"

definition is_mined_report :: "event \<Rightarrow> bool" where
  "is_mined_report e = (case e of Print_mined k \<Rightarrow> True | _ \<Rightarrow> False)"

definition is_stats_print :: "event \<Rightarrow> bool" where
  "is_stats_print e =
     (case e of Print_stats_v1 s \<Rightarrow> True | Print_stats_v2 s \<Rightarrow> True | _ \<Rightarrow> False)"

definition block_reads :: "event list \<Rightarrow> nat" where
  "block_reads t = length (filter is_block_read t)"

definition nonce_reads :: "event list \<Rightarrow> nat" where
  "nonce_reads t = length (filter is_nonce_read t)"

definition simulations :: "event list \<Rightarrow> event list" where
  "simulations t = filter is_simulation t"

definition mined_reports :: "event list \<Rightarrow> event list" where
  "mined_reports t = filter is_mined_report t"

text \<open>A trace without the two lines that print the relay's statistics.\<close>

definition erase_stats :: "event list \<Rightarrow> event list" where
  "erase_stats t = filter (\<lambda>e. \<not> is_stats_print e) t"

text \<open>Every \<^verbatim>\<open>send_bundle\<close> call comes after a simulation request made since the
  previous \<^verbatim>\<open>send_bundle\<close> call (\<open>s\<close>: a simulation is pending).\<close>

primrec simulated_before_send :: "bool \<Rightarrow> event list \<Rightarrow> bool" where
  "simulated_before_send s [] = True"
| "simulated_before_send s (e # t) =
     (case e of
        Call_requests_post u b h \<Rightarrow> simulated_before_send True t
      | Call_send_bundle b tgt opts \<Rightarrow> s \<and> simulated_before_send False t
      | _ \<Rightarrow> simulated_before_send s t)"

text \<open>A bundle is assembled for every entry to the loop body: as many nonce reads as
  block number reads.\<close>

definition bundle_built_per_attempt :: "event list \<Rightarrow> bool" where
  "bundle_built_per_attempt t = (nonce_reads t = block_reads t)"

text \<open>A call returns: it does not raise.\<close>

definition returns :: "exn + 'a \<Rightarrow> bool" where
  "returns r = (case r of Inl e \<Rightarrow> False | Inr v \<Rightarrow> True)"

text \<open>Iteration \<open>i\<close> gets as far as the inclusion check: the block number is \<open>blk\<close>, the
  relay accepts the bundle and answers \<open>sr\<close>, both statistics calls and \<^verbatim>\<open>wait()\<close> return.\<close>

definition reaches_check :: "lib \<Rightarrow> world \<Rightarrow> Bundle \<Rightarrow> nat \<Rightarrow> int \<Rightarrow> send_result \<Rightarrow> bool" where
  "reaches_check L w b i blk sr =
     (block_number w i = Inr blk \<and>
      send_bundle w i b (blk + 10) [(''replacementUuid'', uuid4 w i)] = Inr sr \<and>
      returns (get_bundle_stats w i (toHex_bytes L (bundle_hash sr)) blk) \<and>
      returns (get_bundle_stats_v2 w i (toHex_bytes L (bundle_hash sr)) blk) \<and>
      wait sr = Inr ())"

text \<open>Two answers of a statistics call that differ at most in the value returned.\<close>

definition same_but_value :: "exn + string \<Rightarrow> exn + string \<Rightarrow> bool" where
  "same_but_value r r' =
     (case r of
        Inl e \<Rightarrow> r' = Inl e
      | Inr v \<Rightarrow> returns r')"

text \<open>Iteration \<open>i\<close> gets as far as \<^verbatim>\<open>send_result.wait()\<close>: as above, without the
  answer of \<^verbatim>\<open>wait()\<close> itself.\<close>

definition reaches_wait :: "lib \<Rightarrow> world \<Rightarrow> Bundle \<Rightarrow> nat \<Rightarrow> int \<Rightarrow> send_result \<Rightarrow> bool" where
  "reaches_wait L w b i blk sr =
     (block_number w i = Inr blk \<and>
      send_bundle w i b (blk + 10) [(''replacementUuid'', uuid4 w i)] = Inr sr \<and>
      returns (get_bundle_stats w i (toHex_bytes L (bundle_hash sr)) blk) \<and>
      returns (get_bundle_stats_v2 w i (toHex_bytes L (bundle_hash sr)) blk))"


subsection \<open>Sample library, settings and worlds\<close>

definition demo_lib :: lib where
  "demo_lib =
     \<lparr>keccak_text = (\<lambda>s. ''k'' @ s),
      bytes_hex = (\<lambda>b. ''0x'' @ b),
      encode_defunct = (\<lambda>s. ''E'' @ s),
      sign_message = (\<lambda>m k. m @ ''/'' @ k),
      json_dumps = (\<lambda>j. ''{}''),
      toHex_int = (\<lambda>n. ''0x0''),
      toHex_bytes = (\<lambda>b. ''0x'' @ b),
      sign_transaction = (\<lambda>a t. ''raw''),
      from_key = (\<lambda>k. \<lparr>address = k, privateKey = k\<rparr>)\<rparr>"

definition demo_config :: config where
  "demo_config =
     \<lparr>use_sepolia = USE_SEPOLIA,
      sender = \<lparr>address = ''0xS'', privateKey = ''s''\<rparr>,
      signer = \<lparr>address = ''0xR'', privateKey = ''r''\<rparr>\<rparr>"

definition demo_bundle :: Bundle where
  "demo_bundle = build_bundle demo_lib demo_config ''0xab'' 7"

definition demo_send_result :: "exn + receipt list \<Rightarrow> send_result" where
  "demo_send_result r = \<lparr>bundle_hash = ''h'', wait = Inr (), receipts = r\<rparr>"

text \<open>No receipt ever: every inclusion check raises \<^verbatim>\<open>TransactionNotFound\<close>.\<close>

definition retry_world :: world where
  "retry_world =
     \<lparr>token_hex = ''ab'',
      get_balance = (\<lambda>k a. Inr 5),
      get_transaction_count = (\<lambda>k a. Inr 7),
      block_number = (\<lambda>i. Inr (100 + int i)),
      uuid4 = (\<lambda>i. replicate (Suc i) CHR ''u''),
      send_bundle = (\<lambda>i b tgt opts. Inr (demo_send_result (Inl TransactionNotFound))),
      get_bundle_stats = (\<lambda>i h k. Inr ''s1''),
      get_bundle_stats_v2 = (\<lambda>i h k. Inr ''s2''),
      requests_post = (\<lambda>u b h. Inr (JObject []))\<rparr>"

text \<open>The second iteration finds the receipts, in the block it targeted.\<close>

definition mined_world :: world where
  "mined_world =
     retry_world\<lparr>send_bundle :=
       (\<lambda>i b tgt opts.
          Inr (demo_send_result
                 (if i = 0 then Inl TransactionNotFound
                  else Inr [\<lparr>blockNumber = tgt\<rparr>, \<lparr>blockNumber = tgt\<rparr>])))\<rparr>"

text \<open>The node is unreachable during the inclusion check.\<close>

definition outage_world :: world where
  "outage_world =
     retry_world\<lparr>send_bundle :=
       (\<lambda>i b tgt opts. Inr (demo_send_result (Inl (Other_error ''ConnectionError''))))\<rparr>"

text \<open>The relay reports other statistics.\<close>

definition other_stats_world :: world where
  "other_stats_world =
     retry_world\<lparr>get_bundle_stats := (\<lambda>i h k. Inr ''t1''),
                 get_bundle_stats_v2 := (\<lambda>i h k. Inr ''t2'')\<rparr>"


text \<open>The node is unreachable during \<^verbatim>\<open>wait()\<close>.\<close>

definition wait_outage_world :: world where
  "wait_outage_world =
     retry_world\<lparr>send_bundle :=
       (\<lambda>i b tgt opts.
          Inr \<lparr>bundle_hash = ''h'', wait = Inl (Other_error ''ConnectionError''),
               receipts = Inl TransactionNotFound\<rparr>)\<rparr>"

text \<open>\<^verbatim>\<open>receipts()\<close> returns an empty list.\<close>

definition empty_receipts_world :: world where
  "empty_receipts_world =
     retry_world\<lparr>send_bundle := (\<lambda>i b tgt opts. Inr (demo_send_result (Inr [])))\<rparr>"

text \<open>No receipt at the first inclusion check; the node is unreachable during every later
  one.\<close>

definition late_outage_world :: world where
  "late_outage_world =
     retry_world\<lparr>send_bundle :=
       (\<lambda>i b tgt opts.
          Inr (demo_send_result
                 (if i = 0 then Inl TransactionNotFound
                  else Inl (Other_error ''ConnectionError''))))\<rparr>"

subsection \<open>The sequencing operator\<close>

lemma bind_Inl [simp]: "bind (t, Inl e) f = (t, Inl e)"
  by (simp add: bind_def)

lemma bind_Inr [simp]: "bind (t, Inr x) f = (t @ fst (f x), snd (f x))"
  by (simp add: bind_def split: prod.splits)

lemma bind_emit [simp]: "bind (emit e) f = (e # fst (f ()), snd (f ()))"
  by (simp add: emit_def)

lemma bind_call [simp]:
  "bind (call e r) f =
     (case r of Inl x \<Rightarrow> ([e], Inl x) | Inr v \<Rightarrow> (e # fst (f v), snd (f v)))"
  by (simp add: call_def split: sum.splits)

lemma fst_emit [simp]: "fst (emit e) = [e]" and snd_emit [simp]: "snd (emit e) = Inr ()"
  by (simp_all add: emit_def)

lemma fst_ret [simp]: "fst (ret x) = []" and snd_ret [simp]: "snd (ret x) = Inr x"
  by (simp_all add: ret_def)

subsection \<open>Observations distribute over concatenation\<close>

lemma send_calls_append [simp]: "send_calls (s @ t) = send_calls s @ send_calls t"
  by (induction s) (auto split: event.splits)

lemma reported_targets_append [simp]:
  "reported_targets (s @ t) = reported_targets s @ reported_targets t"
  by (induction s) (auto split: event.splits)

lemma replacement_uuids_append [simp]:
  "replacement_uuids (s @ t) = replacement_uuids s @ replacement_uuids t"
  by (simp add: replacement_uuids_def)

lemma sent_bundles_append [simp]: "sent_bundles (s @ t) = sent_bundles s @ sent_bundles t"
  by (simp add: sent_bundles_def)

lemma sent_targets_append [simp]: "sent_targets (s @ t) = sent_targets s @ sent_targets t"
  by (simp add: sent_targets_def)

lemma block_reads_append [simp]: "block_reads (s @ t) = block_reads s + block_reads t"
  by (simp add: block_reads_def)

lemma nonce_reads_append [simp]: "nonce_reads (s @ t) = nonce_reads s + nonce_reads t"
  by (simp add: nonce_reads_def)

lemma simulations_append [simp]: "simulations (s @ t) = simulations s @ simulations t"
  by (simp add: simulations_def)

lemma erase_stats_append [simp]: "erase_stats (s @ t) = erase_stats s @ erase_stats t"
  by (simp add: erase_stats_def)

subsection \<open>One iteration\<close>

lemma check_receipts_trace:
  "fst (check_receipts sr blk) =
     Call_receipts #
     (case receipts sr of
        Inl TransactionNotFound \<Rightarrow> [Print_not_found (blk + 1)]
      | Inl e \<Rightarrow> []
      | Inr [] \<Rightarrow> []
      | Inr (r # rs) \<Rightarrow> [Print_mined (blockNumber r)])"
  by (simp add: check_receipts_def split: sum.splits exn.splits list.splits)

lemma send_calls_check [simp]: "send_calls (fst (check_receipts sr blk)) = []"
  by (simp add: check_receipts_def split: sum.splits exn.splits list.splits)

lemma attempt_block_raises:
  "block_number w i = Inl e \<Longrightarrow> attempt L w b i = ([Call_block_number], Inl e)"
  by (simp add: attempt_def)

lemma attempt_reaches_check:
  assumes "reaches_check L w b i blk sr"
  shows "\<exists>s1 s2.
    get_bundle_stats w i (toHex_bytes L (bundle_hash sr)) blk = Inr s1 \<and>
    get_bundle_stats_v2 w i (toHex_bytes L (bundle_hash sr)) blk = Inr s2 \<and>
    attempt L w b i =
     ([Call_block_number, Print_simulating blk, Print_sending (blk + 1),
       Print_replacementUuid (uuid4 w i),
       Call_send_bundle b (blk + 10) [(''replacementUuid'', uuid4 w i)],
       Print_bundleHash (toHex_bytes L (bundle_hash sr)),
       Sleep 12,
       Call_get_bundle_stats (toHex_bytes L (bundle_hash sr)) blk,
       Print_stats_v1 s1,
       Call_get_bundle_stats_v2 (toHex_bytes L (bundle_hash sr)) blk,
       Print_stats_v2 s2,
       Call_wait] @ fst (check_receipts sr blk), snd (check_receipts sr blk))"
  using assms
  by (auto simp add: reaches_check_def returns_def attempt_def Let_def split: sum.splits)

lemma attempt_value_reaches_check:
  assumes "snd (attempt L w b i) = Inr out"
  shows "\<exists>blk sr. reaches_check L w b i blk sr \<and> snd (check_receipts sr blk) = Inr out"
proof -
  from assms obtain blk sr s1 s2 where
    "block_number w i = Inr blk"
    "send_bundle w i b (blk + 10) [(''replacementUuid'', uuid4 w i)] = Inr sr"
    "get_bundle_stats w i (toHex_bytes L (bundle_hash sr)) blk = Inr s1"
    "get_bundle_stats_v2 w i (toHex_bytes L (bundle_hash sr)) blk = Inr s2"
    "wait sr = Inr ()"
    "snd (check_receipts sr blk) = Inr out"
    by (auto simp add: attempt_def Let_def split: sum.splits)
  then have "reaches_check L w b i blk sr \<and> snd (check_receipts sr blk) = Inr out"
    by (simp add: reaches_check_def returns_def)
  then show ?thesis by blast
qed

lemma check_receipts_Retrying:
  "snd (check_receipts sr blk) = Inr Retrying \<longleftrightarrow> receipts sr = Inl TransactionNotFound"
  by (simp add: check_receipts_def split: sum.splits exn.splits list.splits)

lemma check_receipts_Included:
  "snd (check_receipts sr blk) = Inr Included \<longleftrightarrow> (\<exists>r rs. receipts sr = Inr (r # rs))"
  by (simp add: check_receipts_def split: sum.splits exn.splits list.splits)

lemma attempt_send_calls:
  "send_calls (fst (attempt L w b i)) =
     (case block_number w i of
        Inl e \<Rightarrow> []
      | Inr blk \<Rightarrow> [(b, blk + 10, [(''replacementUuid'', uuid4 w i)])])"
  by (simp add: attempt_def Let_def split: sum.splits)

lemma attempt_reported_targets:
  "reported_targets (fst (attempt L w b i)) =
     (case block_number w i of Inl e \<Rightarrow> [] | Inr blk \<Rightarrow> [blk + 1])"
  by (simp add: attempt_def Let_def check_receipts_def
           split: sum.splits exn.splits list.splits)

lemma attempt_block_reads [simp]: "block_reads (fst (attempt L w b i)) = 1"
  by (simp add: attempt_def Let_def check_receipts_def block_reads_def is_block_read_def
           split: sum.splits exn.splits list.splits)

lemma attempt_nonce_reads [simp]: "nonce_reads (fst (attempt L w b i)) = 0"
  by (simp add: attempt_def Let_def check_receipts_def nonce_reads_def is_nonce_read_def
           split: sum.splits exn.splits list.splits)

lemma attempt_simulations [simp]: "simulations (fst (attempt L w b i)) = []"
  by (simp add: attempt_def Let_def check_receipts_def simulations_def is_simulation_def
           split: sum.splits exn.splits list.splits)

subsection \<open>The loop\<close>

lemma submit_loop_Suc:
  "submit_loop L w b (Suc n) i =
     (case snd (attempt L w b i) of
        Inl e \<Rightarrow> (fst (attempt L w b i), Some (Inl e))
      | Inr Included \<Rightarrow> (fst (attempt L w b i), Some (Inr ()))
      | Inr Retrying \<Rightarrow>
          (fst (attempt L w b i) @ fst (submit_loop L w b n (Suc i)),
           snd (submit_loop L w b n (Suc i))))"
  by (simp split: prod.splits sum.splits outcome.splits)

declare submit_loop.simps(2) [simp del]

lemma attempt_value_sends:
  assumes "snd (attempt L w b i) = Inr out"
  shows "\<exists>blk. send_calls (fst (attempt L w b i)) =
           [(b, blk + 10, [(''replacementUuid'', uuid4 w i)])]"
proof -
  from attempt_value_reaches_check [OF assms] obtain blk sr
    where "reaches_check L w b i blk sr" by blast
  then have "block_number w i = Inr blk" by (simp add: reaches_check_def)
  then show ?thesis by (simp add: attempt_send_calls)
qed

lemma attempt_sends_le: "length (send_calls (fst (attempt L w b i))) \<le> 1"
  by (simp add: attempt_send_calls split: sum.splits)

lemma attempt_uuids:
  "replacement_uuids (fst (attempt L w b i)) =
     map (\<lambda>j. Some (uuid4 w j)) [i ..< i + length (send_calls (fst (attempt L w b i)))]"
  by (simp add: replacement_uuids_def attempt_send_calls split: sum.splits)

lemma loop_uuids:
  "replacement_uuids (fst (submit_loop L w b n i)) =
     map (\<lambda>j. Some (uuid4 w j))
       [i ..< i + length (send_calls (fst (submit_loop L w b n i)))]"
proof (induction n arbitrary: i)
  case 0
  show ?case by (simp add: replacement_uuids_def)
next
  case (Suc n)
  show ?case
  proof (cases "snd (attempt L w b i)")
    case (Inl e)
    then show ?thesis by (simp add: submit_loop_Suc attempt_uuids)
  next
    case (Inr out)
    from attempt_value_sends [OF Inr] obtain blk where
      s: "send_calls (fst (attempt L w b i)) = [(b, blk + 10, [(''replacementUuid'', uuid4 w i)])]"
      by blast
    show ?thesis
    proof (cases out)
      case Included
      with Inr show ?thesis by (simp add: submit_loop_Suc attempt_uuids)
    next
      case Retrying
      have "[i ..< Suc (i + k)] = i # [Suc i ..< Suc i + k]" for k
        by (simp add: upt_rec)
      with Inr Retrying s Suc.IH [of "Suc i"] show ?thesis
        by (simp add: submit_loop_Suc replacement_uuids_def)
    qed
  qed
qed

lemma loop_bundles:
  "sent_bundles (fst (submit_loop L w b n i)) =
     replicate (length (send_calls (fst (submit_loop L w b n i)))) b"
proof (induction n arbitrary: i)
  case 0
  show ?case by (simp add: sent_bundles_def)
next
  case (Suc n)
  have a: "sent_bundles (fst (attempt L w b i)) =
           replicate (length (send_calls (fst (attempt L w b i)))) b"
    by (simp add: sent_bundles_def attempt_send_calls split: sum.splits)
  show ?case
    using a Suc.IH [of "Suc i"]
    by (simp add: submit_loop_Suc replicate_add split: sum.splits outcome.splits)
qed

lemma loop_nonce_reads [simp]: "nonce_reads (fst (submit_loop L w b n i)) = 0"
  by (induction n arbitrary: i)
     (simp_all add: submit_loop_Suc nonce_reads_def [of "[]"] split: sum.splits outcome.splits)

lemma loop_simulations [simp]: "simulations (fst (submit_loop L w b n i)) = []"
  by (induction n arbitrary: i)
     (simp_all add: submit_loop_Suc simulations_def [of "[]"] split: sum.splits outcome.splits)

lemma loop_targets:
  "sent_targets (fst (submit_loop L w b n i)) =
     map (\<lambda>k. k + 9) (reported_targets (fst (submit_loop L w b n i)))"
proof (induction n arbitrary: i)
  case 0
  show ?case by (simp add: sent_targets_def)
next
  case (Suc n)
  have a: "sent_targets (fst (attempt L w b i)) =
           map (\<lambda>k. k + 9) (reported_targets (fst (attempt L w b i)))"
    by (simp add: sent_targets_def attempt_send_calls attempt_reported_targets
             split: sum.splits)
  show ?case
    using a Suc.IH [of "Suc i"]
    by (simp add: submit_loop_Suc split: sum.splits outcome.splits)
qed

lemma loop_block_reads_sends:
  "length (send_calls (fst (submit_loop L w b n i))) \<le> block_reads (fst (submit_loop L w b n i))"
proof (induction n arbitrary: i)
  case 0
  show ?case by (simp add: block_reads_def)
next
  case (Suc n)
  show ?case
    using attempt_sends_le [of L w b i] Suc.IH [of "Suc i"]
    by (simp add: submit_loop_Suc split: sum.splits outcome.splits)
qed

lemma loop_trace_attempts:
  "fst (submit_loop L w b n i) =
     concat (map (\<lambda>j. fst (attempt L w b j))
                 [i ..< i + block_reads (fst (submit_loop L w b n i))])"
proof (induction n arbitrary: i)
  case 0
  show ?case by (simp add: block_reads_def)
next
  case (Suc n)
  have "[i ..< Suc (i + k)] = i # [Suc i ..< Suc i + k]" for k
    by (simp add: upt_rec)
  with Suc.IH [of "Suc i"] show ?case
    by (simp add: submit_loop_Suc split: sum.splits outcome.splits)
qed

lemma loop_break_mined:
  assumes "snd (submit_loop L w b n i) = Some (Inr u)"
  shows "\<exists>t k. fst (submit_loop L w b n i) = t @ [Print_mined k]"
  using assms
proof (induction n arbitrary: i)
  case 0
  then show ?case by simp
next
  case (Suc n)
  show ?case
  proof (cases "snd (attempt L w b i)")
    case (Inl e)
    with Suc.prems show ?thesis by (simp add: submit_loop_Suc)
  next
    case (Inr out)
    show ?thesis
    proof (cases out)
      case Included
      from attempt_value_reaches_check [OF Inr] obtain blk sr where
        r: "reaches_check L w b i blk sr" and c: "snd (check_receipts sr blk) = Inr out"
        by blast
      from c Included obtain r0 rs where rc: "receipts sr = Inr (r0 # rs)"
        by (auto simp add: check_receipts_Included)
      from attempt_reaches_check [OF r] obtain t0 where
        "fst (attempt L w b i) = t0 @ fst (check_receipts sr blk)"
        by (metis fst_conv)
      with rc have "fst (attempt L w b i) = (t0 @ [Call_receipts]) @ [Print_mined (blockNumber r0)]"
        by (simp add: check_receipts_trace)
      with Inr Included show ?thesis
        by (simp add: submit_loop_Suc)
    next
      case Retrying
      with Inr Suc.prems have "snd (submit_loop L w b n (Suc i)) = Some (Inr u)"
        by (simp add: submit_loop_Suc)
      from Suc.IH [OF this] obtain t k where
        "fst (submit_loop L w b n (Suc i)) = t @ [Print_mined k]" by blast
      with Inr Retrying have
        "fst (submit_loop L w b (Suc n) i) = (fst (attempt L w b i) @ t) @ [Print_mined k]"
        by (simp add: submit_loop_Suc)
      then show ?thesis by blast
    qed
  qed
qed

lemma attempt_not_found:
  assumes "reaches_check L w b i blk sr" and "receipts sr = Inl TransactionNotFound"
  shows "snd (attempt L w b i) = Inr Retrying"
  using attempt_reaches_check [OF assms(1)] assms(2)
  by (auto simp add: check_receipts_def)

lemma loop_never_found:
  assumes "\<forall>j\<ge>i. \<exists>blk sr. reaches_check L w b j blk sr \<and> receipts sr = Inl TransactionNotFound"
  shows "snd (submit_loop L w b n i) = None \<and>
         length (send_calls (fst (submit_loop L w b n i))) = n"
  using assms
proof (induction n arbitrary: i)
  case 0
  show ?case by simp
next
  case (Suc n)
  from Suc.prems obtain blk sr where
    r: "reaches_check L w b i blk sr" and nf: "receipts sr = Inl TransactionNotFound"
    by blast
  have a: "snd (attempt L w b i) = Inr Retrying"
    using attempt_not_found [OF r nf] .
  from attempt_value_sends [OF a] obtain k where
    s: "send_calls (fst (attempt L w b i)) = [(b, k + 10, [(''replacementUuid'', uuid4 w i)])]"
    by blast
  from Suc.prems have "\<forall>j\<ge>Suc i. \<exists>blk sr.
      reaches_check L w b j blk sr \<and> receipts sr = Inl TransactionNotFound"
    by simp
  from Suc.IH [OF this] a s show ?case
    by (simp add: submit_loop_Suc)
qed

subsection \<open>Before and after the loop\<close>

lemma prelude_value:
  assumes "snd (prelude L w c) = Inr (r, b)"
  shows "r = address (random_account L w) \<and>
         (\<exists>k. get_transaction_count w 0 (address (sender c)) = Inr k \<and>
              b = build_bundle L c r k)"
  using assms by (auto simp add: prelude_def Let_def split: sum.splits)

lemma prelude_send_calls [simp]: "send_calls (fst (prelude L w c)) = []"
  by (simp add: prelude_def Let_def split: sum.splits)

lemma prelude_reported_targets [simp]: "reported_targets (fst (prelude L w c)) = []"
  by (simp add: prelude_def Let_def split: sum.splits)

lemma prelude_block_reads [simp]: "block_reads (fst (prelude L w c)) = 0"
  by (simp add: prelude_def Let_def block_reads_def is_block_read_def split: sum.splits)

lemma prelude_nonce_reads: "nonce_reads (fst (prelude L w c)) \<le> 1"
  by (simp add: prelude_def Let_def nonce_reads_def is_nonce_read_def split: sum.splits)

lemma prelude_simulations [simp]: "simulations (fst (prelude L w c)) = []"
  by (simp add: prelude_def Let_def simulations_def is_simulation_def split: sum.splits)

lemma prelude_first: "take 1 (fst (prelude L w c)) = [Call_flashbot (signer c) (relay_url (use_sepolia c))]"
  by (simp add: prelude_def Let_def)

lemma epilogue_send_calls [simp]: "send_calls (fst (epilogue w c r)) = []"
  by (simp add: epilogue_def split: sum.splits)

lemma epilogue_reported_targets [simp]: "reported_targets (fst (epilogue w c r)) = []"
  by (simp add: epilogue_def split: sum.splits)

lemma epilogue_block_reads [simp]: "block_reads (fst (epilogue w c r)) = 0"
  by (simp add: epilogue_def block_reads_def is_block_read_def split: sum.splits)

lemma epilogue_nonce_reads [simp]: "nonce_reads (fst (epilogue w c r)) = 0"
  by (simp add: epilogue_def nonce_reads_def is_nonce_read_def split: sum.splits)

lemma epilogue_simulations [simp]: "simulations (fst (epilogue w c r)) = []"
  by (simp add: epilogue_def simulations_def is_simulation_def split: sum.splits)

lemma main_unfold:
  "main L w c n =
     (case snd (prelude L w c) of
        Inl e \<Rightarrow> (fst (prelude L w c), Some (Inl e))
      | Inr (r, b) \<Rightarrow>
          (case snd (submit_loop L w b n 0) of
             None \<Rightarrow> (fst (prelude L w c) @ fst (submit_loop L w b n 0), None)
           | Some (Inl e) \<Rightarrow>
               (fst (prelude L w c) @ fst (submit_loop L w b n 0), Some (Inl e))
           | Some (Inr u) \<Rightarrow>
               (fst (prelude L w c) @ fst (submit_loop L w b n 0) @ fst (epilogue w c r),
                Some (snd (epilogue w c r)))))"
proof (cases "prelude L w c")
  case p: (Pair t x)
  show ?thesis
  proof (cases x)
    case (Inl e)
    with p show ?thesis by (simp add: main_def)
  next
    case (Inr rb)
    obtain r b where rb: "rb = (r, b)" by (cases rb)
    obtain t' y where l: "submit_loop L w b n 0 = (t', y)" by (cases "submit_loop L w b n 0")
    obtain t'' z where e: "epilogue w c r = (t'', z)" by (cases "epilogue w c r")
    from p Inr rb l e show ?thesis
      by (simp add: main_def split: option.splits sum.splits)
  qed
qed

lemma main_prelude_raises:
  "snd (prelude L w c) = Inl e \<Longrightarrow> main L w c n = (fst (prelude L w c), Some (Inl e))"
  by (simp add: main_unfold)

lemma main_trace:
  assumes "snd (prelude L w c) = Inr (r, b)"
  shows "fst (main L w c n) =
           fst (prelude L w c) @ fst (submit_loop L w b n 0) @
           (case snd (submit_loop L w b n 0) of
              Some (Inr u) \<Rightarrow> fst (epilogue w c r)
            | _ \<Rightarrow> [])"
  using assms
  by (simp add: main_unfold split: sum.splits option.splits)

lemma main_value:
  assumes "snd (prelude L w c) = Inr (r, b)"
  shows "snd (main L w c n) =
           (case snd (submit_loop L w b n 0) of
              None \<Rightarrow> None
            | Some (Inl e) \<Rightarrow> Some (Inl e)
            | Some (Inr u) \<Rightarrow> Some (snd (epilogue w c r)))"
  using assms
  by (simp add: main_unfold split: sum.splits option.splits)

lemma main_send_calls:
  assumes "snd (prelude L w c) = Inr (r, b)"
  shows "send_calls (fst (main L w c n)) = send_calls (fst (submit_loop L w b n 0))"
  by (simp add: main_trace [OF assms] split: option.splits sum.splits)

lemma main_send_calls_raises:
  assumes "snd (prelude L w c) = Inl e"
  shows "send_calls (fst (main L w c n)) = []"
  by (simp add: main_prelude_raises [OF assms])

lemma main_uuids:
  "replacement_uuids (fst (main L w c n)) =
     map (\<lambda>j. Some (uuid4 w j)) [0 ..< length (send_calls (fst (main L w c n)))]"
proof (cases "snd (prelude L w c)")
  case (Inl e)
  then show ?thesis
    by (simp add: main_send_calls_raises replacement_uuids_def)
next
  case (Inr p)
  obtain r b where p: "p = (r, b)" by (cases p)
  with Inr have v: "snd (prelude L w c) = Inr (r, b)" by simp
  have "replacement_uuids (fst (main L w c n)) =
        replacement_uuids (fst (submit_loop L w b n 0))"
    by (simp add: replacement_uuids_def main_send_calls [OF v])
  then show ?thesis
    using loop_uuids [of L w b n 0] by (simp add: main_send_calls [OF v])
qed

lemma main_simulations: "simulations (fst (main L w c n)) = []"
proof (cases "snd (prelude L w c)")
  case (Inl e)
  then show ?thesis by (simp add: main_prelude_raises)
next
  case (Inr p)
  obtain r b where p: "p = (r, b)" by (cases p)
  with Inr have v: "snd (prelude L w c) = Inr (r, b)" by simp
  show ?thesis
    by (simp add: main_trace [OF v] simulations_def [of "[]"] split: option.splits sum.splits)
qed

lemma main_nonce_reads: "nonce_reads (fst (main L w c n)) \<le> 1"
proof (cases "snd (prelude L w c)")
  case (Inl e)
  then show ?thesis
    using prelude_nonce_reads [of L w c] by (simp add: main_prelude_raises)
next
  case (Inr p)
  obtain r b where p: "p = (r, b)" by (cases p)
  with Inr have v: "snd (prelude L w c) = Inr (r, b)" by simp
  show ?thesis
    using prelude_nonce_reads [of L w c]
    by (simp add: main_trace [OF v] nonce_reads_def [of "[]"] split: option.splits sum.splits)
qed

lemma main_targets:
  "sent_targets (fst (main L w c n)) = map (\<lambda>k. k + 9) (reported_targets (fst (main L w c n)))"
proof (cases "snd (prelude L w c)")
  case (Inl e)
  then show ?thesis by (simp add: main_prelude_raises sent_targets_def)
next
  case (Inr p)
  obtain r b where p: "p = (r, b)" by (cases p)
  with Inr have v: "snd (prelude L w c) = Inr (r, b)" by simp
  have "sent_targets (fst (main L w c n)) = sent_targets (fst (submit_loop L w b n 0))"
    by (simp add: sent_targets_def main_send_calls [OF v])
  moreover have "reported_targets (fst (main L w c n)) =
                 reported_targets (fst (submit_loop L w b n 0))"
    by (simp add: main_trace [OF v] split: option.splits sum.splits)
  ultimately show ?thesis by (simp add: loop_targets)
qed

subsection \<open>Evaluating the samples\<close>

lemmas sample_defs =
  demo_lib_def demo_config_def demo_bundle_def demo_send_result_def retry_world_def
  mined_world_def outage_world_def other_stats_world_def USE_SEPOLIA_def

lemma retry_world_prelude:
  "snd (prelude demo_lib retry_world demo_config) = Inr (''0xab'', demo_bundle)"
  by (simp add: prelude_def Let_def random_account_def sample_defs)

lemma retry_world_reaches:
  "reaches_check demo_lib retry_world b i (100 + int i)
     (demo_send_result (Inl TransactionNotFound))"
  by (simp add: reaches_check_def returns_def sample_defs)

lemma retry_world_attempt:
  "attempt demo_lib retry_world b i =
     ([Call_block_number, Print_simulating (100 + int i), Print_sending (101 + int i),
       Print_replacementUuid (replicate (Suc i) CHR ''u''),
       Call_send_bundle b (110 + int i) [(''replacementUuid'', replicate (Suc i) CHR ''u'')],
       Print_bundleHash ''0xh'', Sleep 12,
       Call_get_bundle_stats ''0xh'' (100 + int i), Print_stats_v1 ''s1'',
       Call_get_bundle_stats_v2 ''0xh'' (100 + int i), Print_stats_v2 ''s2'',
       Call_wait, Call_receipts, Print_not_found (101 + int i)], Inr Retrying)"
  by (simp add: attempt_def Let_def check_receipts_def sample_defs)

lemma uuid4_retry_world_inj: "inj (uuid4 retry_world)"
proof (rule injI)
  fix x y
  assume "uuid4 retry_world x = uuid4 retry_world y"
  then have "length (replicate (Suc x) CHR ''u'') = length (replicate (Suc y) CHR ''u'')"
    by (simp add: retry_world_def)
  then show "x = y" by simp
qed

subsection \<open>The statistics calls\<close>

lemma attempt_stats:
  assumes "same_but_value (get_bundle_stats w i h k) (g1 i h k)"
    and "same_but_value (get_bundle_stats_v2 w i h k) (g2 i h k)"
    and "block_number w i = Inr k"
    and "send_bundle w i b (k + 10) [(''replacementUuid'', uuid4 w i)] = Inr sr"
    and "h = toHex_bytes L (bundle_hash sr)"
  shows "snd (attempt L (w\<lparr>get_bundle_stats := g1, get_bundle_stats_v2 := g2\<rparr>) b i) =
           snd (attempt L w b i) \<and>
         erase_stats (fst (attempt L (w\<lparr>get_bundle_stats := g1, get_bundle_stats_v2 := g2\<rparr>) b i)) =
           erase_stats (fst (attempt L w b i))"
  using assms
  by (auto simp add: attempt_def Let_def same_but_value_def returns_def erase_stats_def
        is_stats_print_def split: sum.splits)

lemma attempt_stats_all:
  assumes "\<forall>i h k. same_but_value (get_bundle_stats w i h k) (g1 i h k)"
    and "\<forall>i h k. same_but_value (get_bundle_stats_v2 w i h k) (g2 i h k)"
  shows "snd (attempt L (w\<lparr>get_bundle_stats := g1, get_bundle_stats_v2 := g2\<rparr>) b i) =
           snd (attempt L w b i) \<and>
         erase_stats (fst (attempt L (w\<lparr>get_bundle_stats := g1, get_bundle_stats_v2 := g2\<rparr>) b i)) =
           erase_stats (fst (attempt L w b i))"
proof (cases "block_number w i")
  case (Inl e)
  then show ?thesis by (simp add: attempt_def)
next
  case blk: (Inr k)
  show ?thesis
  proof (cases "send_bundle w i b (k + 10) [(''replacementUuid'', uuid4 w i)]")
    case (Inl e)
    with blk show ?thesis by (simp add: attempt_def Let_def)
  next
    case (Inr sr)
    from assms have
      "same_but_value (get_bundle_stats w i (toHex_bytes L (bundle_hash sr)) k)
         (g1 i (toHex_bytes L (bundle_hash sr)) k)"
      "same_but_value (get_bundle_stats_v2 w i (toHex_bytes L (bundle_hash sr)) k)
         (g2 i (toHex_bytes L (bundle_hash sr)) k)"
      by blast+
    then show ?thesis using blk Inr by (rule attempt_stats) simp
  qed
qed

lemma loop_stats:
  assumes "\<forall>i h k. same_but_value (get_bundle_stats w i h k) (g1 i h k)"
    and "\<forall>i h k. same_but_value (get_bundle_stats_v2 w i h k) (g2 i h k)"
  shows "snd (submit_loop L (w\<lparr>get_bundle_stats := g1, get_bundle_stats_v2 := g2\<rparr>) b n i) =
           snd (submit_loop L w b n i) \<and>
         erase_stats (fst (submit_loop L (w\<lparr>get_bundle_stats := g1, get_bundle_stats_v2 := g2\<rparr>) b n i)) =
           erase_stats (fst (submit_loop L w b n i))"
proof (induction n arbitrary: i)
  case 0
  show ?case by simp
next
  case (Suc n)
  show ?case
    using attempt_stats_all [OF assms, of L b i] Suc.IH [of "Suc i"]
    by (simp add: submit_loop_Suc split: sum.splits outcome.splits)
qed

lemma prelude_stats [simp]:
  "prelude L (w\<lparr>get_bundle_stats := g1, get_bundle_stats_v2 := g2\<rparr>) c = prelude L w c"
  by (simp add: prelude_def random_account_def)

lemma epilogue_stats [simp]:
  "epilogue (w\<lparr>get_bundle_stats := g1, get_bundle_stats_v2 := g2\<rparr>) c r = epilogue w c r"
  by (simp add: epilogue_def)

lemma main_stats:
  assumes "\<forall>i h k. same_but_value (get_bundle_stats w i h k) (g1 i h k)"
    and "\<forall>i h k. same_but_value (get_bundle_stats_v2 w i h k) (g2 i h k)"
  shows "snd (main L (w\<lparr>get_bundle_stats := g1, get_bundle_stats_v2 := g2\<rparr>) c n) =
           snd (main L w c n) \<and>
         erase_stats (fst (main L (w\<lparr>get_bundle_stats := g1, get_bundle_stats_v2 := g2\<rparr>) c n)) =
           erase_stats (fst (main L w c n))"
proof (cases "snd (prelude L w c)")
  case (Inl e)
  then show ?thesis by (simp add: main_unfold)
next
  case (Inr p)
  obtain r b where p: "p = (r, b)" by (cases p)
  from loop_stats [OF assms, of L b n 0] Inr p show ?thesis
    by (simp add: main_unfold split: option.splits sum.splits)
qed

lemma observations_Nil [simp]:
  "block_reads [] = 0" "nonce_reads [] = 0" "simulations [] = []" "erase_stats [] = []"
  "replacement_uuids [] = []" "sent_bundles [] = []" "sent_targets [] = []"
  "mined_reports [] = []"
  by (simp_all add: block_reads_def nonce_reads_def simulations_def erase_stats_def
        replacement_uuids_def sent_bundles_def sent_targets_def mined_reports_def)

lemma retry_world_retrying: "snd (attempt demo_lib retry_world b i) = Inr Retrying"
  by (simp add: retry_world_attempt)

subsection \<open>Exceptions that leave the loop\<close>

lemma attempt_raises_loop:
  "snd (attempt L w b i) = Inl e \<Longrightarrow>
   submit_loop L w b (Suc n) i = (fst (attempt L w b i), Some (Inl e))"
  by (simp add: submit_loop_Suc)

lemma attempt_wait_raises:
  assumes "reaches_wait L w b i blk sr" and "wait sr = Inl e"
  shows "snd (attempt L w b i) = Inl e"
  using assms
  by (auto simp add: reaches_wait_def returns_def attempt_def Let_def split: sum.splits)

lemma attempt_wait_raises_last:
  assumes "reaches_wait L w b i blk sr" and "wait sr = Inl e"
  shows "last (fst (attempt L w b i)) = Call_wait"
  using assms
  by (auto simp add: reaches_wait_def returns_def attempt_def Let_def split: sum.splits)

lemma attempt_empty_receipts:
  assumes "reaches_check L w b i blk sr" and "receipts sr = Inr []"
  shows "snd (attempt L w b i) = Inl IndexError"
  using attempt_reaches_check [OF assms(1)] assms(2)
  by (auto simp add: check_receipts_def)

lemma attempt_Retrying_iff:
  "snd (attempt L w b i) = Inr Retrying \<longleftrightarrow>
     (\<exists>blk sr. reaches_check L w b i blk sr \<and> receipts sr = Inl TransactionNotFound)"
proof
  assume a: "snd (attempt L w b i) = Inr Retrying"
  from attempt_value_reaches_check [OF a] obtain blk sr where
    "reaches_check L w b i blk sr" and "snd (check_receipts sr blk) = Inr Retrying"
    by blast
  then show "\<exists>blk sr. reaches_check L w b i blk sr \<and> receipts sr = Inl TransactionNotFound"
    by (auto simp add: check_receipts_Retrying)
next
  assume "\<exists>blk sr. reaches_check L w b i blk sr \<and> receipts sr = Inl TransactionNotFound"
  then show "snd (attempt L w b i) = Inr Retrying"
    by (auto intro: attempt_not_found)
qed

lemma loop_retry_prefix:
  assumes "\<forall>j. i \<le> j \<and> j < i + k \<longrightarrow> snd (attempt L w b j) = Inr Retrying"
  shows "snd (submit_loop L w b (k + m) i) = snd (submit_loop L w b m (i + k))"
  using assms
proof (induction k arbitrary: i)
  case 0
  show ?case by simp
next
  case (Suc k)
  from Suc.prems have a: "snd (attempt L w b i) = Inr Retrying" by simp
  from Suc.prems have "\<forall>j. Suc i \<le> j \<and> j < Suc i + k \<longrightarrow> snd (attempt L w b j) = Inr Retrying"
    by simp
  from Suc.IH [OF this] a show ?case
    by (simp add: submit_loop_Suc)
qed

lemma main_raises_after_retries:
  assumes p: "snd (prelude L w c) = Inr (r, b)"
    and rs: "\<forall>j<i. snd (attempt L w b j) = Inr Retrying"
    and e: "snd (attempt L w b i) = Inl e"
  shows "snd (main L w c (Suc (i + n))) = Some (Inl e)"
proof -
  from rs have "\<forall>j. 0 \<le> j \<and> j < 0 + i \<longrightarrow> snd (attempt L w b j) = Inr Retrying"
    by simp
  from loop_retry_prefix [OF this, of "Suc n"]
  have "snd (submit_loop L w b (i + Suc n) 0) = snd (submit_loop L w b (Suc n) i)"
    by simp
  with attempt_raises_loop [OF e, of n]
  have "snd (submit_loop L w b (Suc (i + n)) 0) = Some (Inl e)"
    by simp
  with p show ?thesis by (simp add: main_unfold)
qed

section \<open>The claims\<close>

subsection \<open>C1: the replacementUuid of a retry series\<close>

text \<open>Two iterations of the loop send two different ids: line 161 draws a new
  \<^verbatim>\<open>uuid4()\<close> inside the loop body.\<close>

theorem replacement_uuid_regenerated_counterexample:
  "replacement_uuids (fst (main demo_lib retry_world demo_config 2)) = [Some ''u'', Some ''uu'']
   \<and> \<not> uuids_stable (fst (main demo_lib retry_world demo_config 2))"
proof -
  have "replacement_uuids (fst (main demo_lib retry_world demo_config 2)) =
          [Some ''u'', Some ''uu'']"
    by (simp add: main_unfold retry_world_prelude submit_loop_Suc retry_world_attempt
          eval_nat_numeral replacement_uuids_def)
  then show ?thesis by (simp add: uuids_stable_def)
qed

text \<open>C1, as the code has it: the \<open>j\<close>-th \<^verbatim>\<open>send_bundle\<close> call of a run carries the
  \<open>j\<close>-th value drawn from \<^verbatim>\<open>uuid4()\<close> as its \<^verbatim>\<open>replacementUuid\<close>, one draw per
  iteration; when \<^verbatim>\<open>uuid4\<close> never repeats a value, no two calls of the run share an id.\<close>

theorem replacement_uuid_per_attempt:
  "replacement_uuids (fst (main L w c n)) =
     map (\<lambda>j. Some (uuid4 w j)) [0 ..< length (send_calls (fst (main L w c n)))]
   \<and> (inj (uuid4 w) \<longrightarrow> distinct (replacement_uuids (fst (main L w c n))))"
proof -
  have u: "replacement_uuids (fst (main L w c n)) =
     map (\<lambda>j. Some (uuid4 w j)) [0 ..< length (send_calls (fst (main L w c n)))]"
    by (rule main_uuids)
  have "distinct (map (\<lambda>j. Some (uuid4 w j)) [0 ..< k])" if "inj (uuid4 w)" for k
    using that by (simp add: distinct_map inj_on_def)
  with u show ?thesis by simp
qed

theorem replacement_uuid_per_attempt_witness:
  "inj (uuid4 retry_world) \<and>
   distinct (replacement_uuids (fst (main demo_lib retry_world demo_config 3))) \<and>
   replacement_uuids (fst (main demo_lib retry_world demo_config 3)) =
     [Some ''u'', Some ''uu'', Some ''uuu'']"
proof -
  have n: "length (send_calls (fst (main demo_lib retry_world demo_config 3))) = 3"
    by (simp add: main_unfold retry_world_prelude submit_loop_Suc retry_world_attempt
          eval_nat_numeral)
  note t = replacement_uuid_per_attempt [of demo_lib retry_world demo_config 3]
  from t uuid4_retry_world_inj
  have d: "distinct (replacement_uuids (fst (main demo_lib retry_world demo_config 3)))"
    by blast
  from t n have "replacement_uuids (fst (main demo_lib retry_world demo_config 3)) =
      map (\<lambda>j. Some (uuid4 retry_world j)) [0 ..< 3]"
    by simp
  then have "replacement_uuids (fst (main demo_lib retry_world demo_config 3)) =
      [Some ''u'', Some ''uu'', Some ''uuu'']"
    by (simp add: upt_rec retry_world_def)
  with d uuid4_retry_world_inj show ?thesis by blast
qed

subsection \<open>C2: what is done on every iteration\<close>

text \<open>A run of two iterations reads the block number twice and the nonce once.\<close>

theorem bundle_reused_counterexample:
  "block_reads (fst (main demo_lib retry_world demo_config 2)) = 2 \<and>
   nonce_reads (fst (main demo_lib retry_world demo_config 2)) = 1 \<and>
   \<not> bundle_built_per_attempt (fst (main demo_lib retry_world demo_config 2))"
proof -
  have "nonce_reads (fst (prelude demo_lib retry_world demo_config)) = 1"
    by (simp add: prelude_def Let_def random_account_def sample_defs nonce_reads_def
          is_nonce_read_def)
  then have "block_reads (fst (main demo_lib retry_world demo_config 2)) = 2 \<and>
    nonce_reads (fst (main demo_lib retry_world demo_config 2)) = 1"
    by (simp add: main_unfold retry_world_prelude submit_loop_Suc retry_world_retrying
          eval_nat_numeral)
  then show ?thesis by (simp add: bundle_built_per_attempt_def)
qed

text \<open>C2, as the code has it: every iteration starts by reading the chain head block
  number, and the trace of the loop is the traces of its iterations one after the other;
  the bundle is assembled once, before the loop (the loop reads no nonce, a run reads it at
  most once), and every \<^verbatim>\<open>send_bundle\<close> call of the run is given that one bundle.\<close>

theorem bundle_built_once:
  "take 1 (fst (attempt L w b i)) = [Call_block_number]
   \<and> fst (submit_loop L w b n i) =
       concat (map (\<lambda>j. fst (attempt L w b j))
                   [i ..< i + block_reads (fst (submit_loop L w b n i))])
   \<and> nonce_reads (fst (submit_loop L w b n i)) = 0
   \<and> nonce_reads (fst (main L w c n)) \<le> 1
   \<and> (snd (prelude L w c) = Inr (r, b) \<longrightarrow>
        sent_bundles (fst (main L w c n)) =
          replicate (length (send_calls (fst (main L w c n)))) b)"
proof -
  have "take 1 (fst (attempt L w b i)) = [Call_block_number]"
    by (simp add: attempt_def split: sum.splits)
  moreover have "sent_bundles (fst (main L w c n)) =
          replicate (length (send_calls (fst (main L w c n)))) b"
    if "snd (prelude L w c) = Inr (r, b)"
    using loop_bundles [of L w b n 0]
    by (simp add: sent_bundles_def main_send_calls [OF that])
  ultimately show ?thesis
    using loop_trace_attempts [of L w b n i] main_nonce_reads [of L w c n]
    by simp
qed

theorem bundle_built_once_witness:
  "snd (prelude demo_lib retry_world demo_config) = Inr (''0xab'', demo_bundle) \<and>
   sent_bundles (fst (main demo_lib retry_world demo_config 2)) = [demo_bundle, demo_bundle]"
proof -
  have n: "length (send_calls (fst (main demo_lib retry_world demo_config 2))) = 2"
    by (simp add: main_unfold retry_world_prelude submit_loop_Suc retry_world_attempt
          eval_nat_numeral)
  with bundle_built_once [of demo_lib retry_world demo_bundle 0 2 demo_config "''0xab''"]
    retry_world_prelude
  show ?thesis by (simp add: eval_nat_numeral)
qed





subsection \<open>C3: the authentication header\<close>



subsection \<open>C4: the target block and its report\<close>

text \<open>C4 at chain head 100: the bundle is sent for block 110, and the line printed just
  before names block 101.\<close>

theorem report_names_other_block:
  "block_number retry_world 0 = Inr 100 \<and>
   sent_targets (fst (attempt demo_lib retry_world demo_bundle 0)) = [110] \<and>
   reported_targets (fst (attempt demo_lib retry_world demo_bundle 0)) = [101]"
  by (simp add: retry_world_attempt sent_targets_def) (simp add: retry_world_def)

subsection \<open>C5: simulation before submission\<close>

text \<open>A run of one iteration calls \<^verbatim>\<open>send_bundle\<close> and has made no simulation request:
  lines 151 to 157 are commented out.\<close>

theorem no_simulation_counterexample:
  "send_calls (fst (main demo_lib retry_world demo_config 1)) =
     [(demo_bundle, 110, [(''replacementUuid'', ''u'')])] \<and>
   simulations (fst (main demo_lib retry_world demo_config 1)) = [] \<and>
   \<not> simulated_before_send False (fst (main demo_lib retry_world demo_config 1))"
proof -
  have "fst (prelude demo_lib retry_world demo_config) =
     [Call_flashbot (signer demo_config) (Some ''https://relay-goerli.flashbots.net''),
      Print_sender_address ''0xS'', Print_receiver_address ''0xab'',
      Call_get_balance ''0xS'', Print_sender_balance (fromWei 5 ether),
      Call_get_balance ''0xab'', Print_receiver_balance (fromWei 5 ether),
      Call_get_transaction_count ''0xS'', Print_nonce 7, Print_bundle demo_bundle]"
    by (simp add: prelude_def Let_def random_account_def relay_url_def sample_defs)
  then have "\<not> simulated_before_send False (fst (main demo_lib retry_world demo_config 1))"
    by (simp add: main_unfold retry_world_prelude submit_loop_Suc retry_world_attempt)
  moreover have "send_calls (fst (main demo_lib retry_world demo_config 1)) =
     [(demo_bundle, 110, [(''replacementUuid'', ''u'')])]"
    by (simp add: main_unfold retry_world_prelude submit_loop_Suc retry_world_attempt)
  ultimately show ?thesis by (simp add: main_simulations)
qed

text \<open>C5, as the code has it: \<^verbatim>\<open>main\<close> makes no simulation request at all, in no
  iteration, and an iteration that has read the block number calls \<^verbatim>\<open>send_bundle\<close>.\<close>

theorem send_without_simulation:
  "simulations (fst (main L w c n)) = []
   \<and> simulations (fst (attempt L w b i)) = []
   \<and> (block_number w i = Inr blk \<longrightarrow>
        send_calls (fst (attempt L w b i)) =
          [(b, blk + 10, [(''replacementUuid'', uuid4 w i)])])"
  by (simp add: main_simulations attempt_send_calls)

theorem send_without_simulation_witness:
  "block_number retry_world 0 = Inr 100 \<and>
   send_calls (fst (attempt demo_lib retry_world demo_bundle 0)) =
     [(demo_bundle, 110, [(''replacementUuid'', ''u'')])]"
proof -
  have b: "block_number retry_world 0 = Inr 100" by (simp add: retry_world_def)
  have "uuid4 retry_world 0 = ''u''" by (simp add: retry_world_def)
  with b send_without_simulation [of demo_lib retry_world demo_config 0 demo_bundle 0 100]
  show ?thesis by simp
qed

lemma wait_outage_world_reaches:
  "reaches_wait demo_lib wait_outage_world b i (100 + int i)
     \<lparr>bundle_hash = ''h'', wait = Inl (Other_error ''ConnectionError''),
      receipts = Inl TransactionNotFound\<rparr>"
  by (simp add: reaches_wait_def returns_def wait_outage_world_def retry_world_def
        demo_lib_def)

lemma empty_receipts_world_reaches:
  "reaches_check demo_lib empty_receipts_world b i (100 + int i) (demo_send_result (Inr []))"
  by (simp add: reaches_check_def returns_def empty_receipts_world_def sample_defs)

lemma late_outage_world_prelude:
  "snd (prelude demo_lib late_outage_world demo_config) = Inr (''0xab'', demo_bundle)"
  by (simp add: prelude_def Let_def random_account_def late_outage_world_def sample_defs)

lemma late_outage_world_attempts:
  "snd (attempt demo_lib late_outage_world demo_bundle 0) = Inr Retrying"
  "snd (attempt demo_lib late_outage_world demo_bundle (Suc 0)) =
     Inl (Other_error ''ConnectionError'')"
  by (simp_all add: attempt_def Let_def check_receipts_def late_outage_world_def sample_defs)

lemma outage_world_reaches:
  "reaches_check demo_lib outage_world b i (100 + int i)
     (demo_send_result (Inl (Other_error ''ConnectionError'')))"
  by (simp add: reaches_check_def returns_def sample_defs)

lemma outage_world_prelude:
  "snd (prelude demo_lib outage_world demo_config) = Inr (''0xab'', demo_bundle)"
  by (simp add: prelude_def Let_def random_account_def sample_defs)

lemma mined_world_prelude:
  "snd (prelude demo_lib mined_world demo_config) = Inr (''0xab'', demo_bundle)"
  by (simp add: prelude_def Let_def random_account_def sample_defs)

lemma attempt_other_error:
  assumes "reaches_check L w b i blk sr" and "receipts sr = Inl e"
    and "e \<noteq> TransactionNotFound"
  shows "snd (attempt L w b i) = Inl e"
  using attempt_reaches_check [OF assms(1)] assms(2,3)
  by (auto simp add: check_receipts_def split: exn.splits)

subsection \<open>C6: the outcomes of the inclusion check\<close>

text \<open>C6: in an iteration that gets as far as \<^verbatim>\<open>receipts()\<close>, a \<^verbatim>\<open>TransactionNotFound\<close>
  ends the iteration normally, with the "not found" line as its last event, and the loop
  goes on with the next iteration; an iteration ends that way in no other case. Any other
  exception of \<^verbatim>\<open>receipts()\<close>, an empty list of receipts (an \<^verbatim>\<open>IndexError\<close>) and any
  exception of \<^verbatim>\<open>wait()\<close> leave the loop at once as that exception, as does every
  exception raised in an iteration; an exception that leaves the loop leaves \<^verbatim>\<open>main\<close>.\<close>

theorem not_found_retries_other_errors_raise:
  "(reaches_check L w b i blk sr \<and> receipts sr = Inl TransactionNotFound \<longrightarrow>
      snd (attempt L w b i) = Inr Retrying \<and>
      last (fst (attempt L w b i)) = Print_not_found (blk + 1) \<and>
      submit_loop L w b (Suc n) i =
        (fst (attempt L w b i) @ fst (submit_loop L w b n (Suc i)),
         snd (submit_loop L w b n (Suc i))))
   \<and> (snd (attempt L w b i) = Inr Retrying \<longleftrightarrow>
        (\<exists>blk sr. reaches_check L w b i blk sr \<and> receipts sr = Inl TransactionNotFound))
   \<and> (\<forall>e. reaches_check L w b i blk sr \<and> receipts sr = Inl e \<and> e \<noteq> TransactionNotFound \<longrightarrow>
        submit_loop L w b (Suc n) i = (fst (attempt L w b i), Some (Inl e)))
   \<and> (reaches_check L w b i blk sr \<and> receipts sr = Inr [] \<longrightarrow>
        submit_loop L w b (Suc n) i = (fst (attempt L w b i), Some (Inl IndexError)))
   \<and> (\<forall>e. reaches_wait L w b i blk sr \<and> wait sr = Inl e \<longrightarrow>
        snd (attempt L w b i) = Inl e \<and>
        last (fst (attempt L w b i)) = Call_wait \<and>
        submit_loop L w b (Suc n) i = (fst (attempt L w b i), Some (Inl e)))
   \<and> (\<forall>e. snd (attempt L w b i) = Inl e \<longrightarrow>
        submit_loop L w b (Suc n) i = (fst (attempt L w b i), Some (Inl e)))
   \<and> (\<forall>e r. snd (prelude L w c) = Inr (r, b) \<and>
             snd (submit_loop L w b m 0) = Some (Inl e) \<longrightarrow>
        snd (main L w c m) = Some (Inl e))"
proof -
  have "snd (attempt L w b i) = Inr Retrying \<and>
        last (fst (attempt L w b i)) = Print_not_found (blk + 1) \<and>
        submit_loop L w b (Suc n) i =
          (fst (attempt L w b i) @ fst (submit_loop L w b n (Suc i)),
           snd (submit_loop L w b n (Suc i)))"
    if rc: "reaches_check L w b i blk sr" and nf: "receipts sr = Inl TransactionNotFound"
  proof -
    have a: "snd (attempt L w b i) = Inr Retrying"
      using attempt_not_found [OF rc nf] .
    from attempt_reaches_check [OF rc] nf
    have "last (fst (attempt L w b i)) = Print_not_found (blk + 1)"
      by (auto simp add: check_receipts_trace)
    with a show ?thesis by (simp add: submit_loop_Suc)
  qed
  moreover have "snd (attempt L w b i) = Inr Retrying \<longleftrightarrow>
        (\<exists>blk sr. reaches_check L w b i blk sr \<and> receipts sr = Inl TransactionNotFound)"
    by (rule attempt_Retrying_iff)
  moreover have "submit_loop L w b (Suc n) i = (fst (attempt L w b i), Some (Inl e))"
    if "reaches_check L w b i blk sr" and "receipts sr = Inl e" and "e \<noteq> TransactionNotFound"
    for e
    using attempt_other_error [OF that] by (rule attempt_raises_loop)
  moreover have "submit_loop L w b (Suc n) i = (fst (attempt L w b i), Some (Inl IndexError))"
    if "reaches_check L w b i blk sr" and "receipts sr = Inr []"
    using attempt_empty_receipts [OF that] by (rule attempt_raises_loop)
  moreover have "snd (attempt L w b i) = Inl e \<and>
        last (fst (attempt L w b i)) = Call_wait \<and>
        submit_loop L w b (Suc n) i = (fst (attempt L w b i), Some (Inl e))"
    if "reaches_wait L w b i blk sr" and "wait sr = Inl e" for e
    using attempt_wait_raises [OF that] attempt_wait_raises_last [OF that]
    by (simp add: attempt_raises_loop)
  moreover have "submit_loop L w b (Suc n) i = (fst (attempt L w b i), Some (Inl e))"
    if "snd (attempt L w b i) = Inl e" for e
    using that by (rule attempt_raises_loop)
  moreover have "snd (main L w c m) = Some (Inl e)"
    if "snd (prelude L w c) = Inr (r, b)" and "snd (submit_loop L w b m 0) = Some (Inl e)"
    for e r
    using that by (simp add: main_unfold)
  ultimately show ?thesis by blast
qed

theorem not_found_retries_other_errors_raise_witness:
  "reaches_check demo_lib retry_world demo_bundle 0 100
     (demo_send_result (Inl TransactionNotFound)) \<and>
   snd (attempt demo_lib retry_world demo_bundle 0) = Inr Retrying \<and>
   snd (submit_loop demo_lib retry_world demo_bundle (Suc 0) 0) = None \<and>
   reaches_check demo_lib outage_world demo_bundle 0 100
     (demo_send_result (Inl (Other_error ''ConnectionError''))) \<and>
   snd (prelude demo_lib outage_world demo_config) = Inr (''0xab'', demo_bundle) \<and>
   snd (submit_loop demo_lib outage_world demo_bundle (Suc 0) 0) =
     Some (Inl (Other_error ''ConnectionError'')) \<and>
   snd (main demo_lib outage_world demo_config (Suc 0)) =
     Some (Inl (Other_error ''ConnectionError'')) \<and>
   reaches_wait demo_lib wait_outage_world demo_bundle 0 100
     \<lparr>bundle_hash = ''h'', wait = Inl (Other_error ''ConnectionError''),
      receipts = Inl TransactionNotFound\<rparr> \<and>
   snd (attempt demo_lib wait_outage_world demo_bundle 0) =
     Inl (Other_error ''ConnectionError'') \<and>
   snd (submit_loop demo_lib wait_outage_world demo_bundle (Suc 0) 0) =
     Some (Inl (Other_error ''ConnectionError'')) \<and>
   reaches_check demo_lib empty_receipts_world demo_bundle 0 100 (demo_send_result (Inr [])) \<and>
   snd (submit_loop demo_lib empty_receipts_world demo_bundle (Suc 0) 0) =
     Some (Inl IndexError)"
proof -
  have r: "reaches_check demo_lib retry_world demo_bundle 0 100
     (demo_send_result (Inl TransactionNotFound))"
    using retry_world_reaches [of demo_bundle 0] by simp
  have o: "reaches_check demo_lib outage_world demo_bundle 0 100
     (demo_send_result (Inl (Other_error ''ConnectionError'')))"
    using outage_world_reaches [of demo_bundle 0] by simp
  have wo: "reaches_wait demo_lib wait_outage_world demo_bundle 0 100
     \<lparr>bundle_hash = ''h'', wait = Inl (Other_error ''ConnectionError''),
      receipts = Inl TransactionNotFound\<rparr>"
    using wait_outage_world_reaches [of demo_bundle 0] by simp
  have er: "reaches_check demo_lib empty_receipts_world demo_bundle 0 100
     (demo_send_result (Inr []))"
    using empty_receipts_world_reaches [of demo_bundle 0] by simp
  have nf: "receipts (demo_send_result (Inl TransactionNotFound)) = Inl TransactionNotFound"
    and ce: "receipts (demo_send_result (Inl (Other_error ''ConnectionError''))) =
          Inl (Other_error ''ConnectionError'')"
    and em: "receipts (demo_send_result (Inr [])) = Inr []"
    by (simp_all add: demo_send_result_def)
  have wf: "wait \<lparr>bundle_hash = ''h'', wait = Inl (Other_error ''ConnectionError''),
      receipts = Inl TransactionNotFound\<rparr> = Inl (Other_error ''ConnectionError'')"
    by simp
  note t1 = not_found_retries_other_errors_raise
    [of demo_lib retry_world demo_bundle 0 100 "demo_send_result (Inl TransactionNotFound)"
        0 demo_config 0]
  note t2 = not_found_retries_other_errors_raise
    [of demo_lib outage_world demo_bundle 0 100
        "demo_send_result (Inl (Other_error ''ConnectionError''))" 0 demo_config "Suc 0"]
  note t3 = not_found_retries_other_errors_raise
    [of demo_lib wait_outage_world demo_bundle 0 100
        "\<lparr>bundle_hash = ''h'', wait = Inl (Other_error ''ConnectionError''),
          receipts = Inl TransactionNotFound\<rparr>" 0 demo_config 0]
  note t4 = not_found_retries_other_errors_raise
    [of demo_lib empty_receipts_world demo_bundle 0 100 "demo_send_result (Inr [])"
        0 demo_config 0]
  from t1 r nf have a: "snd (attempt demo_lib retry_world demo_bundle 0) = Inr Retrying"
    and l: "submit_loop demo_lib retry_world demo_bundle (Suc 0) 0 =
        (fst (attempt demo_lib retry_world demo_bundle 0) @
         fst (submit_loop demo_lib retry_world demo_bundle 0 (Suc 0)),
         snd (submit_loop demo_lib retry_world demo_bundle 0 (Suc 0)))"
    by blast+
  from l have l': "snd (submit_loop demo_lib retry_world demo_bundle (Suc 0) 0) = None"
    by simp
  from t2 o ce have x: "submit_loop demo_lib outage_world demo_bundle (Suc 0) 0 =
      (fst (attempt demo_lib outage_world demo_bundle 0),
       Some (Inl (Other_error ''ConnectionError'')))"
    by blast
  then have x': "snd (submit_loop demo_lib outage_world demo_bundle (Suc 0) 0) =
      Some (Inl (Other_error ''ConnectionError''))"
    by simp
  with t2 outage_world_prelude
  have mo: "snd (main demo_lib outage_world demo_config (Suc 0)) =
     Some (Inl (Other_error ''ConnectionError''))"
    by blast
  from t3 wo wf have wa: "snd (attempt demo_lib wait_outage_world demo_bundle 0) =
       Inl (Other_error ''ConnectionError'')"
    and wl: "submit_loop demo_lib wait_outage_world demo_bundle (Suc 0) 0 =
      (fst (attempt demo_lib wait_outage_world demo_bundle 0),
       Some (Inl (Other_error ''ConnectionError'')))"
    by blast+
  from wl have wl': "snd (submit_loop demo_lib wait_outage_world demo_bundle (Suc 0) 0) =
      Some (Inl (Other_error ''ConnectionError''))"
    by simp
  from t4 er em have "submit_loop demo_lib empty_receipts_world demo_bundle (Suc 0) 0 =
      (fst (attempt demo_lib empty_receipts_world demo_bundle 0), Some (Inl IndexError))"
    by blast
  then have el: "snd (submit_loop demo_lib empty_receipts_world demo_bundle (Suc 0) 0) =
      Some (Inl IndexError)"
    by simp
  from r o a l' x' outage_world_prelude mo wo wa wl' er el show ?thesis by blast
qed

subsection \<open>C7: how the loop is left\<close>

text \<open>With the node unreachable during the first inclusion check, the run ends after one
  \<^verbatim>\<open>send_bundle\<close> call, with the exception and without any receipt, whatever fuel is left.\<close>

theorem loop_left_by_exception_counterexample:
  "snd (main demo_lib outage_world demo_config 5) = Some (Inl (Other_error ''ConnectionError''))
   \<and> length (send_calls (fst (main demo_lib outage_world demo_config 5))) = 1
   \<and> mined_reports (fst (main demo_lib outage_world demo_config 5)) = []"
proof -
  have p: "fst (prelude demo_lib outage_world demo_config) =
     [Call_flashbot (signer demo_config) (Some ''https://relay-goerli.flashbots.net''),
      Print_sender_address ''0xS'', Print_receiver_address ''0xab'',
      Call_get_balance ''0xS'', Print_sender_balance (fromWei 5 ether),
      Call_get_balance ''0xab'', Print_receiver_balance (fromWei 5 ether),
      Call_get_transaction_count ''0xS'', Print_nonce 7, Print_bundle demo_bundle]"
    by (simp add: prelude_def Let_def random_account_def relay_url_def sample_defs)
  have a: "attempt demo_lib outage_world demo_bundle 0 =
     ([Call_block_number, Print_simulating 100, Print_sending 101,
       Print_replacementUuid ''u'',
       Call_send_bundle demo_bundle 110 [(''replacementUuid'', ''u'')],
       Print_bundleHash ''0xh'', Sleep 12,
       Call_get_bundle_stats ''0xh'' 100, Print_stats_v1 ''s1'',
       Call_get_bundle_stats_v2 ''0xh'' 100, Print_stats_v2 ''s2'',
       Call_wait, Call_receipts], Inl (Other_error ''ConnectionError''))"
    by (simp add: attempt_def Let_def check_receipts_def sample_defs)
  have l5: "submit_loop demo_lib outage_world demo_bundle 5 0 =
     (fst (attempt demo_lib outage_world demo_bundle 0),
      Some (Inl (Other_error ''ConnectionError'')))"
    by (simp add: eval_nat_numeral submit_loop_Suc a)
  have m: "main demo_lib outage_world demo_config 5 =
     (fst (prelude demo_lib outage_world demo_config) @
      fst (attempt demo_lib outage_world demo_bundle 0),
      Some (Inl (Other_error ''ConnectionError'')))"
    by (simp add: main_unfold outage_world_prelude l5)
  show ?thesis
    by (simp add: m p a mined_reports_def is_mined_report_def)
qed

text \<open>C7, as the code has it: \<^verbatim>\<open>main\<close> returns only after a "mined" report, and when
  every iteration gets as far as the inclusion check and finds no receipt there
  (\<^verbatim>\<open>TransactionNotFound\<close>), the loop is still running after any number \<open>n\<close> of
  iterations, having made \<open>n\<close> \<^verbatim>\<open>send_bundle\<close> calls. An exception raised in an
  iteration ends the loop there, and \<^verbatim>\<open>main\<close> ends with that exception when the
  iterations before it all found no receipt.\<close>

theorem loop_exits_only_on_receipt_or_exception:
  "(snd (main L w c n) = Some (Inr u) \<longrightarrow> mined_reports (fst (main L w c n)) \<noteq> [])
   \<and> (snd (prelude L w c) = Inr (r, b) \<and>
      (\<forall>j. \<exists>blk sr. reaches_check L w b j blk sr \<and> receipts sr = Inl TransactionNotFound)
      \<longrightarrow> snd (main L w c n) = None \<and> length (send_calls (fst (main L w c n))) = n)
   \<and> (\<forall>e. snd (attempt L w b i) = Inl e \<longrightarrow>
        submit_loop L w b (Suc n) i = (fst (attempt L w b i), Some (Inl e)))
   \<and> (\<forall>e. snd (prelude L w c) = Inr (r, b) \<and>
          (\<forall>j<i. snd (attempt L w b j) = Inr Retrying) \<and>
          snd (attempt L w b i) = Inl e \<longrightarrow>
        snd (main L w c (Suc (i + n))) = Some (Inl e))"
proof -
  have "mined_reports (fst (main L w c n)) \<noteq> []" if m: "snd (main L w c n) = Some (Inr u)"
  proof (cases "snd (prelude L w c)")
    case (Inl e)
    with m show ?thesis by (simp add: main_unfold)
  next
    case (Inr p)
    obtain r' b' where p: "p = (r', b')" by (cases p)
    from m Inr p obtain u' where "snd (submit_loop L w b' n 0) = Some (Inr u')"
      by (auto simp add: main_unfold split: option.splits sum.splits)
    from loop_break_mined [OF this] obtain t k where
      "fst (submit_loop L w b' n 0) = t @ [Print_mined k]" by blast
    with Inr p have "Print_mined k \<in> set (fst (main L w c n))"
      by (simp add: main_unfold split: option.splits sum.splits)
    then have "Print_mined k \<in> set (mined_reports (fst (main L w c n)))"
      by (simp add: mined_reports_def is_mined_report_def)
    then show ?thesis by auto
  qed
  moreover have "snd (main L w c n) = None \<and> length (send_calls (fst (main L w c n))) = n"
    if p: "snd (prelude L w c) = Inr (r, b)"
      and nf: "\<forall>j. \<exists>blk sr. reaches_check L w b j blk sr \<and>
                 receipts sr = Inl TransactionNotFound"
  proof -
    from nf have "\<forall>j\<ge>0. \<exists>blk sr. reaches_check L w b j blk sr \<and>
                 receipts sr = Inl TransactionNotFound" by simp
    from loop_never_found [OF this, of n] p show ?thesis
      by (simp add: main_unfold)
  qed
  moreover have "submit_loop L w b (Suc n) i = (fst (attempt L w b i), Some (Inl e))"
    if "snd (attempt L w b i) = Inl e" for e
    using that by (rule attempt_raises_loop)
  moreover have "snd (main L w c (Suc (i + n))) = Some (Inl e)"
    if "snd (prelude L w c) = Inr (r, b)"
      and "\<forall>j<i. snd (attempt L w b j) = Inr Retrying"
      and "snd (attempt L w b i) = Inl e" for e
    using that by (rule main_raises_after_retries)
  ultimately show ?thesis by blast
qed

lemma mined_world_attempts:
  "snd (attempt demo_lib mined_world demo_bundle 0) = Inr Retrying"
  "attempt demo_lib mined_world demo_bundle (Suc 0) =
     ([Call_block_number, Print_simulating 101, Print_sending 102,
       Print_replacementUuid ''uu'',
       Call_send_bundle demo_bundle 111 [(''replacementUuid'', ''uu'')],
       Print_bundleHash ''0xh'', Sleep 12,
       Call_get_bundle_stats ''0xh'' 101, Print_stats_v1 ''s1'',
       Call_get_bundle_stats_v2 ''0xh'' 101, Print_stats_v2 ''s2'',
       Call_wait, Call_receipts, Print_mined 111], Inr Included)"
  by (simp_all add: attempt_def Let_def check_receipts_def sample_defs)

theorem loop_exits_only_on_receipt_or_exception_witness:
  "snd (main demo_lib mined_world demo_config 2) = Some (Inr ()) \<and>
   mined_reports (fst (main demo_lib mined_world demo_config 2)) \<noteq> [] \<and>
   snd (prelude demo_lib retry_world demo_config) = Inr (''0xab'', demo_bundle) \<and>
   reaches_check demo_lib retry_world demo_bundle 4 104
     (demo_send_result (Inl TransactionNotFound)) \<and>
   snd (main demo_lib retry_world demo_config 3) = None \<and>
   length (send_calls (fst (main demo_lib retry_world demo_config 3))) = 3 \<and>
   snd (prelude demo_lib late_outage_world demo_config) = Inr (''0xab'', demo_bundle) \<and>
   snd (attempt demo_lib late_outage_world demo_bundle 0) = Inr Retrying \<and>
   snd (attempt demo_lib late_outage_world demo_bundle (Suc 0)) =
     Inl (Other_error ''ConnectionError'') \<and>
   snd (submit_loop demo_lib late_outage_world demo_bundle (Suc 3) (Suc 0)) =
     Some (Inl (Other_error ''ConnectionError'')) \<and>
   snd (main demo_lib late_outage_world demo_config (Suc (Suc 0 + 3))) =
     Some (Inl (Other_error ''ConnectionError''))"
proof -
  have e: "snd (epilogue mined_world demo_config ''0xab'') = Inr ()"
    by (simp add: epilogue_def sample_defs)
  have m: "snd (main demo_lib mined_world demo_config 2) = Some (Inr ())"
    by (simp add: main_unfold mined_world_prelude eval_nat_numeral submit_loop_Suc
          mined_world_attempts e)
  from loop_exits_only_on_receipt_or_exception
         [of demo_lib mined_world demo_config 2 "()" "''0xab''" demo_bundle 0] m
  have m': "mined_reports (fst (main demo_lib mined_world demo_config 2)) \<noteq> []"
    by blast
  have nf: "\<forall>j. \<exists>blk sr. reaches_check demo_lib retry_world demo_bundle j blk sr \<and>
              receipts sr = Inl TransactionNotFound"
  proof
    fix j
    have "receipts (demo_send_result (Inl TransactionNotFound)) = Inl TransactionNotFound"
      by (simp add: demo_send_result_def)
    with retry_world_reaches [of demo_bundle j]
    show "\<exists>blk sr. reaches_check demo_lib retry_world demo_bundle j blk sr \<and>
              receipts sr = Inl TransactionNotFound"
      by blast
  qed
  from loop_exits_only_on_receipt_or_exception
         [of demo_lib retry_world demo_config 3 "()" "''0xab''" demo_bundle 0]
       retry_world_prelude nf
  have r: "snd (main demo_lib retry_world demo_config 3) = None \<and>
           length (send_calls (fst (main demo_lib retry_world demo_config 3))) = 3"
    by blast
  have rc: "reaches_check demo_lib retry_world demo_bundle 4 104
     (demo_send_result (Inl TransactionNotFound))"
    using retry_world_reaches [of demo_bundle 4] by simp
  note t = loop_exits_only_on_receipt_or_exception
         [of demo_lib late_outage_world demo_config 3 "()" "''0xab''" demo_bundle "Suc 0"]
  have before: "\<forall>j<Suc 0. snd (attempt demo_lib late_outage_world demo_bundle j) = Inr Retrying"
    by (simp add: late_outage_world_attempts)
  from t late_outage_world_attempts(2)
  have "submit_loop demo_lib late_outage_world demo_bundle (Suc 3) (Suc 0) =
      (fst (attempt demo_lib late_outage_world demo_bundle (Suc 0)),
       Some (Inl (Other_error ''ConnectionError'')))"
    by blast
  then have ll: "snd (submit_loop demo_lib late_outage_world demo_bundle (Suc 3) (Suc 0)) =
      Some (Inl (Other_error ''ConnectionError''))"
    by simp
  from t late_outage_world_prelude before late_outage_world_attempts(2)
  have lm: "snd (main demo_lib late_outage_world demo_config (Suc (Suc 0 + 3))) =
     Some (Inl (Other_error ''ConnectionError''))"
    by blast
  from m m' r rc retry_world_prelude late_outage_world_prelude late_outage_world_attempts ll lm
  show ?thesis by blast
qed

subsection \<open>C8: the statistics calls\<close>

text \<open>C8: two runs whose worlds differ only in the values that \<^verbatim>\<open>get_bundle_stats\<close> and
  \<^verbatim>\<open>get_bundle_stats_v2\<close> return have the same result and, but for the two lines that
  print those values, the same trace; and an iteration that gets as far as the inclusion
  check has slept 12 seconds after \<^verbatim>\<open>send_bundle\<close> and then made the two statistics
  calls, before \<^verbatim>\<open>wait()\<close> and the check.\<close>

theorem stats_are_observability_only:
  "((\<forall>i h k. same_but_value (get_bundle_stats w i h k) (g1 i h k)) \<and>
    (\<forall>i h k. same_but_value (get_bundle_stats_v2 w i h k) (g2 i h k)) \<longrightarrow>
      snd (main L (w\<lparr>get_bundle_stats := g1, get_bundle_stats_v2 := g2\<rparr>) c n) =
        snd (main L w c n) \<and>
      erase_stats (fst (main L (w\<lparr>get_bundle_stats := g1, get_bundle_stats_v2 := g2\<rparr>) c n)) =
        erase_stats (fst (main L w c n)))
   \<and> (reaches_check L w b i blk sr \<longrightarrow>
        (\<exists>s1 s2.
           get_bundle_stats w i (toHex_bytes L (bundle_hash sr)) blk = Inr s1 \<and>
           get_bundle_stats_v2 w i (toHex_bytes L (bundle_hash sr)) blk = Inr s2 \<and>
           attempt L w b i =
             ([Call_block_number, Print_simulating blk, Print_sending (blk + 1),
               Print_replacementUuid (uuid4 w i),
               Call_send_bundle b (blk + 10) [(''replacementUuid'', uuid4 w i)],
               Print_bundleHash (toHex_bytes L (bundle_hash sr)),
               Sleep 12,
               Call_get_bundle_stats (toHex_bytes L (bundle_hash sr)) blk,
               Print_stats_v1 s1,
               Call_get_bundle_stats_v2 (toHex_bytes L (bundle_hash sr)) blk,
               Print_stats_v2 s2,
               Call_wait] @ fst (check_receipts sr blk), snd (check_receipts sr blk))))"
  using main_stats [of w g1 g2 L c n] attempt_reaches_check [of L w b i blk sr]
  by blast

theorem stats_are_observability_only_witness:
  "(\<forall>i h k. same_but_value (get_bundle_stats retry_world i h k) (Inr ''t1'')) \<and>
   (\<forall>i h k. same_but_value (get_bundle_stats_v2 retry_world i h k) (Inr ''t2'')) \<and>
   reaches_check demo_lib retry_world demo_bundle 0 100
     (demo_send_result (Inl TransactionNotFound)) \<and>
   snd (main demo_lib other_stats_world demo_config 2) =
     snd (main demo_lib retry_world demo_config 2) \<and>
   erase_stats (fst (main demo_lib other_stats_world demo_config 2)) =
     erase_stats (fst (main demo_lib retry_world demo_config 2)) \<and>
   fst (main demo_lib other_stats_world demo_config 2) \<noteq>
     fst (main demo_lib retry_world demo_config 2)"
proof -
  have s1: "\<forall>i h k. same_but_value (get_bundle_stats retry_world i h k) (Inr ''t1'')"
    and s2: "\<forall>i h k. same_but_value (get_bundle_stats_v2 retry_world i h k) (Inr ''t2'')"
    by (simp_all add: same_but_value_def returns_def retry_world_def)
  have r: "reaches_check demo_lib retry_world demo_bundle 0 100
     (demo_send_result (Inl TransactionNotFound))"
    using retry_world_reaches [of demo_bundle 0] by simp
  have o: "other_stats_world =
     retry_world\<lparr>get_bundle_stats := (\<lambda>i h k. Inr ''t1''),
                 get_bundle_stats_v2 := (\<lambda>i h k. Inr ''t2'')\<rparr>"
    by (simp add: other_stats_world_def)
  from stats_are_observability_only
         [of retry_world "\<lambda>i h k. Inr ''t1''" "\<lambda>i h k. Inr ''t2''" demo_lib demo_config 2
             demo_bundle 0 100 "demo_send_result (Inl TransactionNotFound)"] s1 s2
  have eq: "snd (main demo_lib other_stats_world demo_config 2) =
     snd (main demo_lib retry_world demo_config 2) \<and>
   erase_stats (fst (main demo_lib other_stats_world demo_config 2)) =
     erase_stats (fst (main demo_lib retry_world demo_config 2))"
    unfolding o by blast
  have a: "attempt demo_lib other_stats_world b i =
     ([Call_block_number, Print_simulating (100 + int i), Print_sending (101 + int i),
       Print_replacementUuid (replicate (Suc i) CHR ''u''),
       Call_send_bundle b (110 + int i) [(''replacementUuid'', replicate (Suc i) CHR ''u'')],
       Print_bundleHash ''0xh'', Sleep 12,
       Call_get_bundle_stats ''0xh'' (100 + int i), Print_stats_v1 ''t1'',
       Call_get_bundle_stats_v2 ''0xh'' (100 + int i), Print_stats_v2 ''t2'',
       Call_wait, Call_receipts, Print_not_found (101 + int i)], Inr Retrying)" for b i
    by (simp add: attempt_def Let_def check_receipts_def sample_defs)
  have p: "snd (prelude demo_lib other_stats_world demo_config) = Inr (''0xab'', demo_bundle)"
    unfolding o by (simp add: retry_world_prelude)
  have pf: "fst (prelude demo_lib other_stats_world demo_config) =
            fst (prelude demo_lib retry_world demo_config)"
    unfolding o by simp
  have "fst (main demo_lib other_stats_world demo_config 2) \<noteq>
     fst (main demo_lib retry_world demo_config 2)"
    by (simp add: main_unfold p pf retry_world_prelude eval_nat_numeral submit_loop_Suc a
          retry_world_attempt)
  with s1 s2 r eq show ?thesis by blast
qed

subsection \<open>C9: the nonces of the bundle\<close>

text \<open>C9: the bundle that \<^verbatim>\<open>main\<close> assembles from the sender's transaction count \<open>k\<close>
  has two entries, both of the sender: the signed first transaction with nonce \<open>k\<close> and the
  second transaction with nonce \<open>k + 1\<close>; the two nonces differ.\<close>

theorem bundle_nonces_consecutive:
  assumes "snd (prelude L w c) = Inr (r, b)"
  shows "\<exists>k. get_transaction_count w 0 (address (sender c)) = Inr k \<and>
     b = [Signed_transaction (sign_transaction L (sender c) (tx1 c r k)),
          Signer_transaction (sender c) (tx2 c r k)] \<and>
     nonce (tx1 c r k) = k \<and> nonce (tx2 c r k) = k + 1 \<and>
     nonce (tx1 c r k) \<noteq> nonce (tx2 c r k)"
proof -
  from prelude_value [OF assms] obtain k where
    "get_transaction_count w 0 (address (sender c)) = Inr k" and "b = build_bundle L c r k"
    by blast
  then show ?thesis
    by (simp add: build_bundle_def tx1_def tx2_def)
qed

theorem bundle_nonces_consecutive_witness:
  "snd (prelude demo_lib retry_world demo_config) = Inr (''0xab'', demo_bundle) \<and>
   get_transaction_count retry_world 0 (address (sender demo_config)) = Inr 7 \<and>
   demo_bundle =
     [Signed_transaction
        (sign_transaction demo_lib (sender demo_config) (tx1 demo_config ''0xab'' 7)),
      Signer_transaction (sender demo_config) (tx2 demo_config ''0xab'' 7)] \<and>
   nonce (tx1 demo_config ''0xab'' 7) = 7 \<and> nonce (tx2 demo_config ''0xab'' 7) = 8"
proof -
  have g: "get_transaction_count retry_world 0 (address (sender demo_config)) = Inr 7"
    by (simp add: retry_world_def)
  from bundle_nonces_consecutive [OF retry_world_prelude] g
  show ?thesis using retry_world_prelude by auto
qed

subsection \<open>C10: network selection\<close>

text \<open>C10: the flag is true in the source; with the flag true both transactions have
  chainId 5 and the flashbots client is given the goerli relay URL; with the flag false
  they have chainId 1 and the client is given no URL; \<^verbatim>\<open>simulate_bundle\<close> posts to the
  sepolia relay URL in both cases.\<close>

theorem network_selection:
  "USE_SEPOLIA = True \<and> CHAIN_ID True = 5 \<and> CHAIN_ID False = 1
   \<and> chainId (tx1 (c\<lparr>use_sepolia := True\<rparr>) r k) = 5
   \<and> chainId (tx2 (c\<lparr>use_sepolia := True\<rparr>) r k) = 5
   \<and> chainId (tx1 (c\<lparr>use_sepolia := False\<rparr>) r k) = 1
   \<and> chainId (tx2 (c\<lparr>use_sepolia := False\<rparr>) r k) = 1
   \<and> take 1 (fst (prelude L w (c\<lparr>use_sepolia := True\<rparr>))) =
       [Call_flashbot (signer c) (Some ''https://relay-goerli.flashbots.net'')]
   \<and> take 1 (fst (prelude L w (c\<lparr>use_sepolia := False\<rparr>))) =
       [Call_flashbot (signer c) None]
   \<and> fst (simulate_bundle L w c txs target) =
       [Call_requests_post ''https://relay-sepolia.flashbots.net''
          (json_dumps L (simulate_data L txs target))
          (simulate_headers L (signer c) (json_dumps L (simulate_data L txs target)))]"
  using prelude_first [of L w "c\<lparr>use_sepolia := True\<rparr>"]
    prelude_first [of L w "c\<lparr>use_sepolia := False\<rparr>"]
  by (simp add: USE_SEPOLIA_def CHAIN_ID_def tx1_def tx2_def relay_url_def
        simulate_bundle_def Let_def call_def simulate_url_def)

end
